theory Spec2Isabelle
  imports Complex_Main
begin

section \<open>Trust score engine of the MARK backend\<close>

text \<open>
  A shallow embedding of \<^verbatim>\<open>src/services/TrustScoreService.ts\<close>, of the trust score block of
  the configuration module and of the part of the logging service the engine calls.
  JavaScript numbers that hold database integers are modelled as \<^typ>\<open>int\<close>; the database
  tables are lists of rows in insertion order; a thrown \<^verbatim>\<open>Error\<close> is a value of type
  \<open>error\<close>, returned together with the database as it is at the moment of the throw.
\<close>

subsection \<open>Configuration (\<^verbatim>\<open>config.trustScore\<close>)\<close>

definition baseScore :: int where "baseScore = 50"
definition maxScore :: int where "maxScore = 100"
definition minScore :: int where "minScore = 0"

definition crypto_identityVerified :: int where "crypto_identityVerified = 20"
definition crypto_liquidityLock6Months :: int where "crypto_liquidityLock6Months = 15"
definition crypto_liquidityLock12Months :: int where "crypto_liquidityLock12Months = 20"
definition crypto_vesting12Months :: int where "crypto_vesting12Months = 10"
definition crypto_vesting24Months :: int where "crypto_vesting24Months = 15"
definition crypto_profileComplete :: int where "crypto_profileComplete = 10"
definition crypto_externalAudit :: int where "crypto_externalAudit = 10"
definition crypto_whitepaperSocials :: int where "crypto_whitepaperSocials = 5"
definition crypto_contractVerified :: int where "crypto_contractVerified = 5"

definition business_kybBasic :: int where "business_kybBasic = 10"
definition business_kybStandard :: int where "business_kybStandard = 15"
definition business_kybEnhanced :: int where "business_kybEnhanced = 20"
definition business_financialDocs :: int where "business_financialDocs = 15"
definition business_einRegistration :: int where "business_einRegistration = 10"
definition business_profileComplete :: int where "business_profileComplete = 10"
definition business_externalAccountingReview :: int where
  "business_externalAccountingReview = 10"

definition penalties_missedReport :: int where "penalties_missedReport = - 15"
definition penalties_communityReport :: int where "penalties_communityReport = - 15"

subsection \<open>Enumerations of the database schema and of \<^verbatim>\<open>types/index.ts\<close>\<close>

datatype IdentityStatus =
  NOT_STARTED | PENDING | IN_REVIEW | VERIFIED | REJECTED | EXPIRED

datatype KYBLevel = NONE | BASIC | STANDARD | ENHANCED

datatype TrustScoreEventType =
  IDENTITY_VERIFIED | LIQUIDITY_LOCKED | VESTING_CONFIGURED | PROFILE_COMPLETED
  | AUDIT_SUBMITTED | DOCS_UPLOADED | KYB_VERIFIED | MANUAL_ADJUSTMENT
  | PENALTY_APPLIED | BONUS_APPLIED

datatype TrustScoreTier = EXCELLENT | GOOD | NEUTRAL | CAUTION | HIGH_RISK

datatype EntityType = project | business

datatype error = Error string

subsection \<open>Score tiers\<close>

definition getTier :: "int \<Rightarrow> TrustScoreTier" where
  "getTier score =
     (if score \<ge> 85 then EXCELLENT
      else if score \<ge> 70 then GOOD
      else if score \<ge> 50 then NEUTRAL
      else if score \<ge> 30 then CAUTION
      else HIGH_RISK)"

fun getTierDescription :: "TrustScoreTier \<Rightarrow> string" where
  "getTierDescription EXCELLENT =
     ''Highly Trusted - This entity has demonstrated exceptional trustworthiness''"
| "getTierDescription GOOD =
     ''Trusted - This entity meets high standards of verification and transparency''"
| "getTierDescription NEUTRAL = ''Standard - This entity meets basic requirements''"
| "getTierDescription CAUTION =
     ''Exercise Caution - Some trust factors are missing or concerning''"
| "getTierDescription HIGH_RISK =
     ''High Risk - Significant trust factors are missing or concerning''"

record TierInfo =
  ti_tier :: TrustScoreTier
  ti_description :: string

definition getTierInfo :: "int \<Rightarrow> TierInfo" where
  "getTierInfo score =
     (let tier = getTier score
      in \<lparr> ti_tier = tier, ti_description = getTierDescription tier \<rparr>)"

subsection \<open>Rows of the database tables the engine reads and writes\<close>

text \<open>
  Only the columns the engine touches are kept. A nullable column is an \<open>option\<close>;
  timestamps are readings of a clock, kept as natural numbers. The column
  \<^verbatim>\<open>teamAllocationPercent\<close> is a double of which the engine only asks whether it is null.
\<close>

record PrivateIdentityVerification =
  iv_userId :: string
  iv_status :: IdentityStatus

record CryptoProject =
  cp_id :: string
  cp_userId :: string
  cp_name :: string
  cp_description :: "string option"
  cp_category :: "string option"
  cp_whitepaper :: "string option"
  cp_twitter :: "string option"
  cp_discord :: "string option"
  cp_telegram :: "string option"
  cp_totalSupply :: "string option"
  cp_teamAllocationPercent :: "real option"
  cp_teamVestingMonths :: "int option"
  cp_liquidityLockMonths :: "int option"
  cp_auditProvider :: "string option"
  cp_auditReportUrl :: "string option"
  cp_contractVerified :: bool
  cp_trustScore :: int
  cp_trustScoreUpdatedAt :: "nat option"

record ProjectDocument =
  pd_projectId :: string
  pd_type :: string

record Business =
  b_id :: string
  b_userId :: string
  b_legalName :: string
  b_entityType :: "string option"
  b_jurisdiction :: "string option"
  b_ein :: "string option"
  b_registrationNumber :: "string option"
  b_businessEmail :: "string option"
  b_website :: "string option"
  b_description :: "string option"
  b_industry :: "string option"
  b_kybLevel :: KYBLevel
  b_trustScore :: int
  b_trustScoreUpdatedAt :: "nat option"

record BusinessDocument =
  bd_businessId :: string
  bd_type :: string
  bd_isVerified :: bool

record BusinessFounder =
  bf_businessId :: string
  bf_kycVerified :: bool

record TrustScoreEvent =
  ev_projectId :: "string option"
  ev_businessId :: "string option"
  ev_eventType :: TrustScoreEventType
  ev_points :: int
  ev_reason :: string
  ev_triggeredBy :: "string option"
  ev_metadata :: "(string \<times> string) list option"
  ev_createdAt :: nat

record SystemLog =
  log_level :: string
  log_category :: string
  log_action :: string
  log_message :: string
  log_userId :: "string option"
  log_createdAt :: nat

record db =
  users :: "string list"
  identityVerifications :: "PrivateIdentityVerification list"
  cryptoProjects :: "CryptoProject list"
  projectDocuments :: "ProjectDocument list"
  businesses :: "Business list"
  businessDocuments :: "BusinessDocument list"
  businessFounders :: "BusinessFounder list"
  trustScoreEvents :: "TrustScoreEvent list"
  systemLogs :: "SystemLog list"
  clock :: nat

type_synonym 'a outcome = "(error + 'a) \<times> db"

subsection \<open>Types of the engine\<close>

record EvaluationContext =
  identity :: "PrivateIdentityVerification option"
  documentsCount :: "nat option"
  hasFinancialDocs :: "bool option"
  hasAuditDocs :: "bool option"
  founderCount :: "nat option"
  founderKycCount :: "nat option"

record 'e ScoreRule =
  rule_name :: string
  rule_maxPoints :: int
  rule_description :: string
  evaluate :: "'e \<Rightarrow> EvaluationContext \<Rightarrow> int"

record TrustScoreFactor =
  f_name :: string
  f_points :: int
  f_maxPoints :: int
  f_achieved :: bool
  f_description :: string

record TrustScoreHistoryItem =
  h_date :: nat
  h_score :: int
  h_eventType :: TrustScoreEventType
  h_points :: int
  h_reason :: string

record TrustScoreResult =
  res_entityId :: string
  res_entityType :: EntityType
  currentScore :: int
  res_tier :: TrustScoreTier
  res_factors :: "TrustScoreFactor list"
  res_lastUpdated :: nat
  res_history :: "TrustScoreHistoryItem list"

record TrustScoreAdjustment =
  adj_entityId :: string
  adj_entityType :: EntityType
  adj_points :: int
  adj_reason :: string

subsection \<open>JavaScript truthiness and number formatting\<close>

definition truthy_string :: "string option \<Rightarrow> bool" where
  "truthy_string v = (case v of None \<Rightarrow> False | Some t \<Rightarrow> t \<noteq> [])"

definition truthy_flag :: "bool option \<Rightarrow> bool" where
  "truthy_flag v = (case v of None \<Rightarrow> False | Some b \<Rightarrow> b)"

text \<open>\<^verbatim>\<open>x && x >= k\<close> on a nullable integer column.\<close>

definition atLeastMonths :: "int option \<Rightarrow> int \<Rightarrow> bool" where
  "atLeastMonths v k = (case v of None \<Rightarrow> False | Some n \<Rightarrow> n \<noteq> 0 \<and> n \<ge> k)"

text \<open>Decimal rendering of an integer, as template literals print a number.\<close>

definition digit_char :: "nat \<Rightarrow> char" where
  "digit_char d = char_of (d + 48)"

fun digits_of :: "nat \<Rightarrow> string" where
  "digits_of k =
     (if 10 \<le> k then digits_of (k div 10) @ [digit_char (k mod 10)] else [digit_char k])"

definition number_toString :: "int \<Rightarrow> string" where
  "number_toString v =
     (if 0 \<le> v then digits_of (nat v) else CHR ''-'' # digits_of (nat (- v)))"

text \<open>
  \<^verbatim>\<open>Math.floor(fields.filter(Boolean).length / fields.length * maxPoints)\<close>. The source
  computes in IEEE doubles; the model computes in the reals. With the configured
  \<open>maxPoints = 10\<close> and the five and seven fields of the two profile rules both give
  0, 2, 4, 6, 8, 10 and 0, 1, 2, 4, 5, 7, 8, 10.
\<close>

definition completenessPoints :: "bool list \<Rightarrow> int \<Rightarrow> int" where
  "completenessPoints requiredFields maxPts =
     \<lfloor>real (length (filter (\<lambda>b. b) requiredFields)) / real (length requiredFields)
        * real_of_int maxPts\<rfloor>"

subsection \<open>Crypto project rules\<close>

definition rule_identityVerification :: "CryptoProject ScoreRule" where
  "rule_identityVerification =
     \<lparr> rule_name = ''Identity Verification'',
       rule_maxPoints = crypto_identityVerified,
       rule_description = ''Team lead has completed private identity verification'',
       evaluate = (\<lambda>entity context.
         if (case identity context of None \<Rightarrow> False | Some v \<Rightarrow> iv_status v = VERIFIED)
         then crypto_identityVerified else 0) \<rparr>"

definition rule_liquidityLock6 :: "CryptoProject ScoreRule" where
  "rule_liquidityLock6 =
     \<lparr> rule_name = ''Liquidity Lock (6+ months)'',
       rule_maxPoints = crypto_liquidityLock6Months,
       rule_description = ''Initial liquidity is locked for at least 6 months'',
       evaluate = (\<lambda>entity context.
         if atLeastMonths (cp_liquidityLockMonths entity) 6
         then crypto_liquidityLock6Months else 0) \<rparr>"

definition rule_liquidityLock12 :: "CryptoProject ScoreRule" where
  "rule_liquidityLock12 =
     \<lparr> rule_name = ''Liquidity Lock (12+ months)'',
       rule_maxPoints = crypto_liquidityLock12Months - crypto_liquidityLock6Months,
       rule_description =
         ''Initial liquidity is locked for at least 12 months (additional bonus)'',
       evaluate = (\<lambda>entity context.
         if atLeastMonths (cp_liquidityLockMonths entity) 12
         then crypto_liquidityLock12Months - crypto_liquidityLock6Months else 0) \<rparr>"

definition rule_teamVesting12 :: "CryptoProject ScoreRule" where
  "rule_teamVesting12 =
     \<lparr> rule_name = ''Team Vesting (12+ months)'',
       rule_maxPoints = crypto_vesting12Months,
       rule_description = ''Team tokens have at least 12 months vesting'',
       evaluate = (\<lambda>entity context.
         if atLeastMonths (cp_teamVestingMonths entity) 12
         then crypto_vesting12Months else 0) \<rparr>"

definition rule_teamVesting24 :: "CryptoProject ScoreRule" where
  "rule_teamVesting24 =
     \<lparr> rule_name = ''Team Vesting (24+ months)'',
       rule_maxPoints = crypto_vesting24Months - crypto_vesting12Months,
       rule_description = ''Team tokens have at least 24 months vesting (additional bonus)'',
       evaluate = (\<lambda>entity context.
         if atLeastMonths (cp_teamVestingMonths entity) 24
         then crypto_vesting24Months - crypto_vesting12Months else 0) \<rparr>"

definition rule_projectProfile :: "CryptoProject ScoreRule" where
  "rule_projectProfile =
     \<lparr> rule_name = ''Complete Profile'',
       rule_maxPoints = crypto_profileComplete,
       rule_description = ''Project has a complete profile with all essential information'',
       evaluate = (\<lambda>entity context.
         let requiredFields =
               [ cp_name entity \<noteq> [],
                 truthy_string (cp_description entity),
                 truthy_string (cp_category entity),
                 truthy_string (cp_totalSupply entity),
                 cp_teamAllocationPercent entity \<noteq> None ]
         in completenessPoints requiredFields crypto_profileComplete) \<rparr>"

definition rule_externalAudit :: "CryptoProject ScoreRule" where
  "rule_externalAudit =
     \<lparr> rule_name = ''External Audit'',
       rule_maxPoints = crypto_externalAudit,
       rule_description = ''Smart contract has been audited by a third-party'',
       evaluate = (\<lambda>entity context.
         if truthy_string (cp_auditProvider entity) \<and> truthy_string (cp_auditReportUrl entity)
         then crypto_externalAudit else 0) \<rparr>"

definition rule_whitepaperSocials :: "CryptoProject ScoreRule" where
  "rule_whitepaperSocials =
     \<lparr> rule_name = ''Whitepaper & Socials'',
       rule_maxPoints = crypto_whitepaperSocials,
       rule_description = ''Project has whitepaper and active social media presence'',
       evaluate = (\<lambda>entity context.
         let points = 0;
             points = (if truthy_string (cp_whitepaper entity) then points + 2 else points);
             points = (if truthy_string (cp_twitter entity) \<or> truthy_string (cp_discord entity)
                          \<or> truthy_string (cp_telegram entity)
                       then points + 3 else points)
         in min points crypto_whitepaperSocials) \<rparr>"

definition rule_contractVerified :: "CryptoProject ScoreRule" where
  "rule_contractVerified =
     \<lparr> rule_name = ''Contract Verified'',
       rule_maxPoints = crypto_contractVerified,
       rule_description = ''Smart contract source code is verified on-chain'',
       evaluate = (\<lambda>entity context.
         if cp_contractVerified entity then crypto_contractVerified else 0) \<rparr>"

definition cryptoRules :: "CryptoProject ScoreRule list" where
  "cryptoRules =
     [ rule_identityVerification, rule_liquidityLock6, rule_liquidityLock12,
       rule_teamVesting12, rule_teamVesting24, rule_projectProfile,
       rule_externalAudit, rule_whitepaperSocials, rule_contractVerified ]"

subsection \<open>Business rules\<close>

definition rule_kybBasic :: "Business ScoreRule" where
  "rule_kybBasic =
     \<lparr> rule_name = ''KYB Basic'',
       rule_maxPoints = business_kybBasic,
       rule_description = ''Business has completed basic KYB verification'',
       evaluate = (\<lambda>entity context.
         if b_kybLevel entity = BASIC \<or> b_kybLevel entity = STANDARD
            \<or> b_kybLevel entity = ENHANCED
         then business_kybBasic else 0) \<rparr>"

definition rule_kybStandard :: "Business ScoreRule" where
  "rule_kybStandard =
     \<lparr> rule_name = ''KYB Standard'',
       rule_maxPoints = business_kybStandard - business_kybBasic,
       rule_description = ''Business has completed standard KYB verification (additional)'',
       evaluate = (\<lambda>entity context.
         if b_kybLevel entity = STANDARD \<or> b_kybLevel entity = ENHANCED
         then business_kybStandard - business_kybBasic else 0) \<rparr>"

definition rule_kybEnhanced :: "Business ScoreRule" where
  "rule_kybEnhanced =
     \<lparr> rule_name = ''KYB Enhanced'',
       rule_maxPoints = business_kybEnhanced - business_kybStandard,
       rule_description = ''Business has completed enhanced KYB verification (additional)'',
       evaluate = (\<lambda>entity context.
         if b_kybLevel entity = ENHANCED
         then business_kybEnhanced - business_kybStandard else 0) \<rparr>"

definition rule_financialDocs :: "Business ScoreRule" where
  "rule_financialDocs =
     \<lparr> rule_name = ''Financial Documents'',
       rule_maxPoints = business_financialDocs,
       rule_description =
         ''Business has uploaded financial documents (P&L, balance sheet)'',
       evaluate = (\<lambda>entity context.
         if truthy_flag (hasFinancialDocs context) then business_financialDocs else 0) \<rparr>"

definition rule_einRegistration :: "Business ScoreRule" where
  "rule_einRegistration =
     \<lparr> rule_name = ''EIN / Registration'',
       rule_maxPoints = business_einRegistration,
       rule_description = ''Business has valid EIN or registration number on file'',
       evaluate = (\<lambda>entity context.
         if truthy_string (b_ein entity) \<or> truthy_string (b_registrationNumber entity)
         then business_einRegistration else 0) \<rparr>"

definition rule_businessProfile :: "Business ScoreRule" where
  "rule_businessProfile =
     \<lparr> rule_name = ''Complete Profile'',
       rule_maxPoints = business_profileComplete,
       rule_description = ''Business has a complete profile with all essential information'',
       evaluate = (\<lambda>entity context.
         let requiredFields =
               [ b_legalName entity \<noteq> [],
                 truthy_string (b_entityType entity),
                 truthy_string (b_jurisdiction entity),
                 truthy_string (b_description entity),
                 truthy_string (b_industry entity),
                 truthy_string (b_businessEmail entity),
                 truthy_string (b_website entity) ]
         in completenessPoints requiredFields business_profileComplete) \<rparr>"

definition rule_externalAccountingReview :: "Business ScoreRule" where
  "rule_externalAccountingReview =
     \<lparr> rule_name = ''External Accounting Review'',
       rule_maxPoints = business_externalAccountingReview,
       rule_description = ''Financial documents have been reviewed by external accountant'',
       evaluate = (\<lambda>entity context.
         if truthy_flag (hasAuditDocs context)
         then business_externalAccountingReview else 0) \<rparr>"

definition businessRules :: "Business ScoreRule list" where
  "businessRules =
     [ rule_kybBasic, rule_kybStandard, rule_kybEnhanced, rule_financialDocs,
       rule_einRegistration, rule_businessProfile, rule_externalAccountingReview ]"

subsection \<open>The store (Prisma client) and the logging service\<close>

definition cryptoProject_findUnique :: "string \<Rightarrow> db \<Rightarrow> CryptoProject option" where
  "cryptoProject_findUnique projectId s = find (\<lambda>p. cp_id p = projectId) (cryptoProjects s)"

definition business_findUnique :: "string \<Rightarrow> db \<Rightarrow> Business option" where
  "business_findUnique businessId s = find (\<lambda>b. b_id b = businessId) (businesses s)"

definition user_identityVerification :: "string \<Rightarrow> db \<Rightarrow> PrivateIdentityVerification option"
  where
  "user_identityVerification userId s =
     find (\<lambda>v. iv_userId v = userId) (identityVerifications s)"

definition cryptoProject_update :: "string \<Rightarrow> int \<Rightarrow> nat \<Rightarrow> db \<Rightarrow> db" where
  "cryptoProject_update projectId score now s =
     s\<lparr> cryptoProjects :=
          map (\<lambda>p. if cp_id p = projectId
                    then p\<lparr> cp_trustScore := score, cp_trustScoreUpdatedAt := Some now \<rparr>
                    else p)
              (cryptoProjects s) \<rparr>"

definition business_update :: "string \<Rightarrow> int \<Rightarrow> nat \<Rightarrow> db \<Rightarrow> db" where
  "business_update businessId score now s =
     s\<lparr> businesses :=
          map (\<lambda>b. if b_id b = businessId
                    then b\<lparr> b_trustScore := score, b_trustScoreUpdatedAt := Some now \<rparr>
                    else b)
              (businesses s) \<rparr>"

text \<open>
  \<^verbatim>\<open>trustScoreEvent.create\<close>: the table has foreign keys from \<^verbatim>\<open>projectId\<close> and
  \<^verbatim>\<open>businessId\<close> to the entity tables, so the insert throws when the referenced row is
  missing; \<^verbatim>\<open>createdAt\<close> defaults to the current time.
\<close>

definition trustScoreEvent_create :: "TrustScoreEvent \<Rightarrow> db \<Rightarrow> unit outcome" where
  "trustScoreEvent_create row s =
     (if (case ev_projectId row of None \<Rightarrow> True
          | Some i \<Rightarrow> cryptoProject_findUnique i s \<noteq> None)
         \<and> (case ev_businessId row of None \<Rightarrow> True
          | Some i \<Rightarrow> business_findUnique i s \<noteq> None)
      then (Inr (), s\<lparr> trustScoreEvents := trustScoreEvents s @ [row\<lparr> ev_createdAt := clock s \<rparr>] \<rparr>)
      else (Inl (Error ''Foreign key constraint failed''), s))"

text \<open>
  \<^verbatim>\<open>logger.log\<close> inserts into \<^verbatim>\<open>SystemLog\<close> inside \<^verbatim>\<open>try\<close>/\<^verbatim>\<open>catch\<close>: a failed insert (the
  table has a foreign key from \<^verbatim>\<open>userId\<close> to the users) is swallowed and nothing is
  written.
\<close>

definition logger_log :: "SystemLog \<Rightarrow> db \<Rightarrow> db" where
  "logger_log input s =
     (if (case log_userId input of None \<Rightarrow> True | Some u \<Rightarrow> u \<in> set (users s))
      then s\<lparr> systemLogs := systemLogs s @ [input\<lparr> log_createdAt := clock s \<rparr>] \<rparr>
      else s)"

definition logger_audit :: "string \<Rightarrow> string \<Rightarrow> string \<Rightarrow> string \<Rightarrow> db \<Rightarrow> db" where
  "logger_audit category action message userId s =
     logger_log \<lparr> log_level = ''AUDIT'', log_category = category, log_action = action,
                  log_message = message, log_userId = Some userId, log_createdAt = 0 \<rparr> s"

text \<open>
  The foreign keys \<^verbatim>\<open>CryptoProject_userId_fkey\<close> and \<^verbatim>\<open>Business_userId_fkey\<close> of the
  schema: every entity row references an existing user.
\<close>

definition CryptoProject_userId_fkey :: "db \<Rightarrow> bool" where
  "CryptoProject_userId_fkey s = list_all (\<lambda>p. cp_userId p \<in> set (users s)) (cryptoProjects s)"

definition Business_userId_fkey :: "db \<Rightarrow> bool" where
  "Business_userId_fkey s = list_all (\<lambda>b. b_userId b \<in> set (users s)) (businesses s)"

text \<open>\<^verbatim>\<open>orderBy: { createdAt: 'desc' }\<close>; rows of equal time come latest insertion first.\<close>

definition orderByCreatedAtDesc :: "TrustScoreEvent list \<Rightarrow> TrustScoreEvent list" where
  "orderByCreatedAtDesc evs = rev (sort_key ev_createdAt evs)"

subsection \<open>Calculating a score\<close>

fun evaluateRules ::
  "'e ScoreRule list \<Rightarrow> 'e \<Rightarrow> EvaluationContext \<Rightarrow> int \<times> TrustScoreFactor list
     \<Rightarrow> int \<times> TrustScoreFactor list" where
  "evaluateRules [] entity context (totalScore, factors) = (totalScore, factors)"
| "evaluateRules (rule # rules) entity context (totalScore, factors) =
     (let points = evaluate rule entity context
      in evaluateRules rules entity context
           (totalScore + points,
            factors @ [\<lparr> f_name = rule_name rule, f_points = points,
                          f_maxPoints = rule_maxPoints rule, f_achieved = (points > 0),
                          f_description = rule_description rule \<rparr>]))"

fun applyPenaltyEvents :: "TrustScoreEvent list \<Rightarrow> int \<Rightarrow> int" where
  "applyPenaltyEvents [] totalScore = totalScore"
| "applyPenaltyEvents (event # events) totalScore =
     applyPenaltyEvents events (totalScore + ev_points event)"

definition historyItems :: "TrustScoreEvent list \<Rightarrow> int \<Rightarrow> TrustScoreHistoryItem list" where
  "historyItems hist totalScore =
     map (\<lambda>h. \<lparr> h_date = ev_createdAt h, h_score = totalScore, h_eventType = ev_eventType h,
                  h_points = ev_points h, h_reason = ev_reason h \<rparr>) hist"

text \<open>
  The evaluation context of a project: the \<^verbatim>\<open>include\<close> of the query (the owner's identity
  verification and the project's documents) and the context object built from it.
\<close>

definition projectContext :: "CryptoProject \<Rightarrow> db \<Rightarrow> EvaluationContext" where
  "projectContext proj s =
     (let documents = filter (\<lambda>d. pd_projectId d = cp_id proj) (projectDocuments s)
      in \<lparr> identity = user_identityVerification (cp_userId proj) s,
           documentsCount = Some (length documents),
           hasFinancialDocs = None,
           hasAuditDocs = Some (list_ex (\<lambda>d. pd_type d = ''audit'') documents),
           founderCount = None,
           founderKycCount = None \<rparr>)"

definition businessContext :: "Business \<Rightarrow> db \<Rightarrow> EvaluationContext" where
  "businessContext biz s =
     (let documents = filter (\<lambda>d. bd_businessId d = b_id biz) (businessDocuments s);
          founders = filter (\<lambda>f. bf_businessId f = b_id biz) (businessFounders s)
      in \<lparr> identity = user_identityVerification (b_userId biz) s,
           documentsCount = Some (length documents),
           hasFinancialDocs = Some (list_ex (\<lambda>d. bd_type d = ''financial'') documents),
           hasAuditDocs =
             Some (list_ex (\<lambda>d. bd_type d = ''audit'' \<and> bd_isVerified d) documents),
           founderCount = Some (length founders),
           founderKycCount = Some (length (filter bf_kycVerified founders)) \<rparr>)"

definition calculateProjectScore :: "string \<Rightarrow> db \<Rightarrow> TrustScoreResult outcome" where
  "calculateProjectScore projectId s =
     (case cryptoProject_findUnique projectId s of
        None \<Rightarrow> (Inl (Error ''Project not found''), s)
      | Some proj \<Rightarrow>
          let context = projectContext proj s;
              (totalScore, factors) = evaluateRules cryptoRules proj context (baseScore, []);
              penaltyEvents =
                filter (\<lambda>e. ev_projectId e = Some projectId \<and> ev_points e < 0)
                  (trustScoreEvents s);
              totalScore = applyPenaltyEvents penaltyEvents totalScore;
              totalScore = max minScore (min maxScore totalScore);
              hist = take 10 (orderByCreatedAtDesc
                       (filter (\<lambda>e. ev_projectId e = Some projectId) (trustScoreEvents s)));
              result = \<lparr> res_entityId = projectId, res_entityType = project,
                         currentScore = totalScore, res_tier = getTier totalScore,
                         res_factors = factors, res_lastUpdated = clock s,
                         res_history = historyItems hist totalScore \<rparr>;
              s1 = cryptoProject_update projectId totalScore (clock s) s;
              s2 = logger_audit ''TRUST_SCORE'' ''SCORE_CALCULATED''
                     (''Calculated trust score for project '' @ projectId @ '': ''
                        @ number_toString totalScore)
                     (cp_userId proj) s1
          in (Inr result, s2))"

definition calculateBusinessScore :: "string \<Rightarrow> db \<Rightarrow> TrustScoreResult outcome" where
  "calculateBusinessScore businessId s =
     (case business_findUnique businessId s of
        None \<Rightarrow> (Inl (Error ''Business not found''), s)
      | Some biz \<Rightarrow>
          let context = businessContext biz s;
              (totalScore, factors) = evaluateRules businessRules biz context (baseScore, []);
              penaltyEvents =
                filter (\<lambda>e. ev_businessId e = Some businessId \<and> ev_points e < 0)
                  (trustScoreEvents s);
              totalScore = applyPenaltyEvents penaltyEvents totalScore;
              totalScore = max minScore (min maxScore totalScore);
              hist = take 10 (orderByCreatedAtDesc
                       (filter (\<lambda>e. ev_businessId e = Some businessId) (trustScoreEvents s)));
              result = \<lparr> res_entityId = businessId, res_entityType = business,
                         currentScore = totalScore, res_tier = getTier totalScore,
                         res_factors = factors, res_lastUpdated = clock s,
                         res_history = historyItems hist totalScore \<rparr>;
              s1 = business_update businessId totalScore (clock s) s;
              s2 = logger_audit ''TRUST_SCORE'' ''SCORE_CALCULATED''
                     (''Calculated trust score for business '' @ businessId @ '': ''
                        @ number_toString totalScore)
                     (b_userId biz) s1
          in (Inr result, s2))"

subsection \<open>Events\<close>

fun string_of_EntityType :: "EntityType \<Rightarrow> string" where
  "string_of_EntityType project = ''project''"
| "string_of_EntityType business = ''business''"

definition recordEvent ::
  "string \<Rightarrow> EntityType \<Rightarrow> TrustScoreEventType \<Rightarrow> int \<Rightarrow> string \<Rightarrow> string option
     \<Rightarrow> (string \<times> string) list option \<Rightarrow> db \<Rightarrow> unit outcome" where
  "recordEvent entityId etype eventType points reason triggeredBy metadata s =
     (case trustScoreEvent_create
             \<lparr> ev_projectId = (if etype = project then Some entityId else None),
               ev_businessId = (if etype = business then Some entityId else None),
               ev_eventType = eventType, ev_points = points, ev_reason = reason,
               ev_triggeredBy = triggeredBy, ev_metadata = metadata, ev_createdAt = 0 \<rparr> s of
        (Inl e, s1) \<Rightarrow> (Inl e, s1)
      | (Inr _, s1) \<Rightarrow>
          (if etype = project
           then (case calculateProjectScore entityId s1 of
                   (Inl e, s2) \<Rightarrow> (Inl e, s2) | (Inr _, s2) \<Rightarrow> (Inr (), s2))
           else (case calculateBusinessScore entityId s1 of
                   (Inl e, s2) \<Rightarrow> (Inl e, s2) | (Inr _, s2) \<Rightarrow> (Inr (), s2))))"

definition adminAdjust :: "TrustScoreAdjustment \<Rightarrow> string \<Rightarrow> db \<Rightarrow> TrustScoreResult outcome"
  where
  "adminAdjust adjustment adminId s =
     (case recordEvent (adj_entityId adjustment) (adj_entityType adjustment) MANUAL_ADJUSTMENT
             (adj_points adjustment) (adj_reason adjustment) (Some adminId)
             (Some [(''adminAdjustment'', ''true'')]) s of
        (Inl e, s1) \<Rightarrow> (Inl e, s1)
      | (Inr _, s1) \<Rightarrow>
          let s2 = logger_audit ''TRUST_SCORE'' ''ADMIN_ADJUSTMENT''
                     (''Admin '' @ adminId @ '' adjusted ''
                        @ string_of_EntityType (adj_entityType adjustment) @ '' ''
                        @ adj_entityId adjustment @ '' by ''
                        @ number_toString (adj_points adjustment) @ '' points: ''
                        @ adj_reason adjustment)
                     adminId s1
          in if adj_entityType adjustment = project
             then calculateProjectScore (adj_entityId adjustment) s2
             else calculateBusinessScore (adj_entityId adjustment) s2)"

subsection \<open>Triggers\<close>

fun identityVerified_projects :: "CryptoProject list \<Rightarrow> db \<Rightarrow> unit outcome" where
  "identityVerified_projects [] s = (Inr (), s)"
| "identityVerified_projects (proj # projects) s =
     (case recordEvent (cp_id proj) project IDENTITY_VERIFIED crypto_identityVerified
             ''Team lead completed identity verification'' (Some ''system'') None s of
        (Inl e, s1) \<Rightarrow> (Inl e, s1)
      | (Inr _, s1) \<Rightarrow> identityVerified_projects projects s1)"

fun identityVerified_businesses :: "Business list \<Rightarrow> db \<Rightarrow> unit outcome" where
  "identityVerified_businesses [] s = (Inr (), s)"
| "identityVerified_businesses (biz # bizs) s =
     (case recordEvent (b_id biz) business IDENTITY_VERIFIED business_kybBasic
             ''Business owner completed identity verification'' (Some ''system'') None s of
        (Inl e, s1) \<Rightarrow> (Inl e, s1)
      | (Inr _, s1) \<Rightarrow> identityVerified_businesses bizs s1)"

definition onIdentityVerified :: "string \<Rightarrow> db \<Rightarrow> unit outcome" where
  "onIdentityVerified userId s =
     (let projects = filter (\<lambda>p. cp_userId p = userId) (cryptoProjects s);
          bizs = filter (\<lambda>b. b_userId b = userId) (businesses s)
      in case identityVerified_projects projects s of
           (Inl e, s1) \<Rightarrow> (Inl e, s1)
         | (Inr _, s1) \<Rightarrow> identityVerified_businesses bizs s1)"





subsection \<open>Penalties\<close>

definition applyMissedReportPenalty :: "string \<Rightarrow> string \<Rightarrow> db \<Rightarrow> unit outcome" where
  "applyMissedReportPenalty businessId period s =
     recordEvent businessId business PENALTY_APPLIED penalties_missedReport
       (''Missed revenue report for '' @ period) (Some ''system'') None s"

definition applyCommunityReportPenalty ::
  "string \<Rightarrow> EntityType \<Rightarrow> string \<Rightarrow> db \<Rightarrow> unit outcome" where
  "applyCommunityReportPenalty entityId etype reportReason s =
     recordEvent entityId etype PENALTY_APPLIED penalties_communityReport
       (''Community report verified: '' @ reportReason) (Some ''governance'') None s"

subsection \<open>Queries\<close>



section \<open>An example database\<close>

text \<open>
  One user owning two projects and one business. The first project has a twelve month
  liquidity lock, a twenty-four month vesting and an audit; its stored score is stale. The
  second project is fresh and carries a positive manual adjustment in the ledger; the
  business carries two missed-report penalties.
\<close>

definition demo_project1 :: CryptoProject where
  "demo_project1 =
     \<lparr> cp_id = ''p1'', cp_userId = ''u1'', cp_name = ''SafeSwap'',
       cp_description = None, cp_category = None, cp_whitepaper = None,
       cp_twitter = None, cp_discord = None, cp_telegram = None,
       cp_totalSupply = None, cp_teamAllocationPercent = None,
       cp_teamVestingMonths = Some 24, cp_liquidityLockMonths = Some 12,
       cp_auditProvider = Some ''CertiK'', cp_auditReportUrl = Some ''https://a.example/r'',
       cp_contractVerified = False, cp_trustScore = 85, cp_trustScoreUpdatedAt = None \<rparr>"

definition demo_project2 :: CryptoProject where
  "demo_project2 =
     \<lparr> cp_id = ''p2'', cp_userId = ''u1'', cp_name = ''Moon'',
       cp_description = Some ''A token'', cp_category = None, cp_whitepaper = None,
       cp_twitter = None, cp_discord = None, cp_telegram = None,
       cp_totalSupply = None, cp_teamAllocationPercent = None,
       cp_teamVestingMonths = None, cp_liquidityLockMonths = None,
       cp_auditProvider = None, cp_auditReportUrl = None,
       cp_contractVerified = False, cp_trustScore = 50, cp_trustScoreUpdatedAt = None \<rparr>"

definition demo_business :: Business where
  "demo_business =
     \<lparr> b_id = ''b1'', b_userId = ''u1'', b_legalName = ''Acme LLC'',
       b_entityType = None, b_jurisdiction = None, b_ein = None,
       b_registrationNumber = None, b_businessEmail = None, b_website = None,
       b_description = None, b_industry = None, b_kybLevel = NONE,
       b_trustScore = 50, b_trustScoreUpdatedAt = None \<rparr>"

definition demo_penalty :: TrustScoreEvent where
  "demo_penalty =
     \<lparr> ev_projectId = None, ev_businessId = Some ''b1'', ev_eventType = PENALTY_APPLIED,
       ev_points = - 15, ev_reason = ''Missed revenue report for 2025-Q1'',
       ev_triggeredBy = Some ''system'', ev_metadata = None, ev_createdAt = 3 \<rparr>"

definition demo_bonus :: TrustScoreEvent where
  "demo_bonus =
     \<lparr> ev_projectId = Some ''p2'', ev_businessId = None, ev_eventType = MANUAL_ADJUSTMENT,
       ev_points = 10, ev_reason = ''Goodwill'',
       ev_triggeredBy = Some ''admin1'',
       ev_metadata = Some [(''adminAdjustment'', ''true'')], ev_createdAt = 5 \<rparr>"

definition demo_db :: db where
  "demo_db =
     \<lparr> users = [''u1'', ''admin1''],
       identityVerifications = [\<lparr> iv_userId = ''u1'', iv_status = VERIFIED \<rparr>],
       cryptoProjects = [demo_project1, demo_project2],
       projectDocuments = [],
       businesses = [demo_business],
       businessDocuments = [],
       businessFounders = [],
       trustScoreEvents = [demo_penalty, demo_penalty\<lparr> ev_createdAt := 4 \<rparr>, demo_bonus],
       systemLogs = [],
       clock = 9 \<rparr>"

section \<open>Properties\<close>

declare digits_of.simps [simp del]

lemmas config_defs =
  baseScore_def maxScore_def minScore_def
  crypto_identityVerified_def crypto_liquidityLock6Months_def
  crypto_liquidityLock12Months_def crypto_vesting12Months_def crypto_vesting24Months_def
  crypto_profileComplete_def crypto_externalAudit_def crypto_whitepaperSocials_def
  crypto_contractVerified_def
  business_kybBasic_def business_kybStandard_def business_kybEnhanced_def
  business_financialDocs_def business_einRegistration_def business_profileComplete_def
  business_externalAccountingReview_def
  penalties_missedReport_def penalties_communityReport_def

lemmas demo_defs =
  demo_project1_def demo_project2_def demo_business_def demo_penalty_def demo_bonus_def
  demo_db_def

subsection \<open>The loops and the store\<close>

lemma evaluateRules_fst:
  "fst (evaluateRules rules e c (t, fs)) = t + sum_list (map (\<lambda>r. evaluate r e c) rules)"
  by (induction rules arbitrary: t fs) (simp_all add: Let_def)

lemma applyPenaltyEvents_sum:
  "applyPenaltyEvents evs t = t + sum_list (map ev_points evs)"
  by (induction evs arbitrary: t) simp_all

lemma logger_audit_fields [simp]:
  "users (logger_audit c a m u s) = users s"
  "identityVerifications (logger_audit c a m u s) = identityVerifications s"
  "cryptoProjects (logger_audit c a m u s) = cryptoProjects s"
  "projectDocuments (logger_audit c a m u s) = projectDocuments s"
  "businesses (logger_audit c a m u s) = businesses s"
  "businessDocuments (logger_audit c a m u s) = businessDocuments s"
  "businessFounders (logger_audit c a m u s) = businessFounders s"
  "trustScoreEvents (logger_audit c a m u s) = trustScoreEvents s"
  "clock (logger_audit c a m u s) = clock s"
  by (simp_all add: logger_audit_def logger_log_def)

lemma cryptoProject_update_fields [simp]:
  "users (cryptoProject_update i t n s) = users s"
  "identityVerifications (cryptoProject_update i t n s) = identityVerifications s"
  "projectDocuments (cryptoProject_update i t n s) = projectDocuments s"
  "businesses (cryptoProject_update i t n s) = businesses s"
  "businessDocuments (cryptoProject_update i t n s) = businessDocuments s"
  "businessFounders (cryptoProject_update i t n s) = businessFounders s"
  "trustScoreEvents (cryptoProject_update i t n s) = trustScoreEvents s"
  "systemLogs (cryptoProject_update i t n s) = systemLogs s"
  "clock (cryptoProject_update i t n s) = clock s"
  by (simp_all add: cryptoProject_update_def)

lemma business_update_fields [simp]:
  "users (business_update i t n s) = users s"
  "identityVerifications (business_update i t n s) = identityVerifications s"
  "cryptoProjects (business_update i t n s) = cryptoProjects s"
  "projectDocuments (business_update i t n s) = projectDocuments s"
  "businessDocuments (business_update i t n s) = businessDocuments s"
  "businessFounders (business_update i t n s) = businessFounders s"
  "trustScoreEvents (business_update i t n s) = trustScoreEvents s"
  "systemLogs (business_update i t n s) = systemLogs s"
  "clock (business_update i t n s) = clock s"
  by (simp_all add: business_update_def)

text \<open>What a successful recomputation of a project returns and leaves behind.\<close>

lemma calculateProjectScore_found:
  assumes "cryptoProject_findUnique pid s = Some p"
  shows "\<exists>r. calculateProjectScore pid s =
           (Inr r,
            logger_audit ''TRUST_SCORE'' ''SCORE_CALCULATED''
              (''Calculated trust score for project '' @ pid @ '': ''
                 @ number_toString (currentScore r))
              (cp_userId p) (cryptoProject_update pid (currentScore r) (clock s) s)) \<and>
         currentScore r =
           max minScore (min maxScore
             (baseScore + (\<Sum>rule\<leftarrow>cryptoRules. evaluate rule p (projectContext p s))
              + (\<Sum>e\<leftarrow>filter (\<lambda>e. ev_projectId e = Some pid \<and> ev_points e < 0)
                     (trustScoreEvents s). ev_points e)))"
proof -
  obtain t fs where ev: "evaluateRules cryptoRules p (projectContext p s) (baseScore, []) = (t, fs)"
    by (cases "evaluateRules cryptoRules p (projectContext p s) (baseScore, [])")
  have "t = baseScore + (\<Sum>rule\<leftarrow>cryptoRules. evaluate rule p (projectContext p s))"
    using evaluateRules_fst [of cryptoRules p "projectContext p s" baseScore "[]"] ev by simp
  then show ?thesis
    using assms ev
    by (simp add: calculateProjectScore_def Let_def applyPenaltyEvents_sum)
qed

lemma calculateBusinessScore_found:
  assumes "business_findUnique bid s = Some b"
  shows "\<exists>r. calculateBusinessScore bid s =
           (Inr r,
            logger_audit ''TRUST_SCORE'' ''SCORE_CALCULATED''
              (''Calculated trust score for business '' @ bid @ '': ''
                 @ number_toString (currentScore r))
              (b_userId b) (business_update bid (currentScore r) (clock s) s)) \<and>
         currentScore r =
           max minScore (min maxScore
             (baseScore + (\<Sum>rule\<leftarrow>businessRules. evaluate rule b (businessContext b s))
              + (\<Sum>e\<leftarrow>filter (\<lambda>e. ev_businessId e = Some bid \<and> ev_points e < 0)
                     (trustScoreEvents s). ev_points e)))"
proof -
  obtain t fs where ev: "evaluateRules businessRules b (businessContext b s) (baseScore, []) = (t, fs)"
    by (cases "evaluateRules businessRules b (businessContext b s) (baseScore, [])")
  have "t = baseScore + (\<Sum>rule\<leftarrow>businessRules. evaluate rule b (businessContext b s))"
    using evaluateRules_fst [of businessRules b "businessContext b s" baseScore "[]"] ev by simp
  then show ?thesis
    using assms ev
    by (simp add: calculateBusinessScore_def Let_def applyPenaltyEvents_sum)
qed

lemma calculateProjectScore_missing:
  "cryptoProject_findUnique pid s = None \<Longrightarrow>
   calculateProjectScore pid s = (Inl (Error ''Project not found''), s)"
  by (simp add: calculateProjectScore_def)

lemma calculateBusinessScore_missing:
  "business_findUnique bid s = None \<Longrightarrow>
   calculateBusinessScore bid s = (Inl (Error ''Business not found''), s)"
  by (simp add: calculateBusinessScore_def)

lemma find_map_key_preserving:
  "(\<And>x. k (f x) = k x) \<Longrightarrow>
   find (\<lambda>x. k x = q) (map f xs) = map_option f (find (\<lambda>x. k x = q) xs)"
  by (induction xs) simp_all

lemma cryptoProject_findUnique_update:
  "cryptoProject_findUnique q (cryptoProject_update i t n s) =
     map_option (\<lambda>p. if cp_id p = i
                       then p\<lparr> cp_trustScore := t, cp_trustScoreUpdatedAt := Some n \<rparr> else p)
       (cryptoProject_findUnique q s)"
  unfolding cryptoProject_findUnique_def cryptoProject_update_def
  by (simp add: find_map_key_preserving [where k = cp_id])

lemma business_findUnique_update:
  "business_findUnique q (business_update i t n s) =
     map_option (\<lambda>b. if b_id b = i
                       then b\<lparr> b_trustScore := t, b_trustScoreUpdatedAt := Some n \<rparr> else b)
       (business_findUnique q s)"
  unfolding business_findUnique_def business_update_def
  by (simp add: find_map_key_preserving [where k = b_id])

lemma findUnique_logger_audit [simp]:
  "cryptoProject_findUnique q (logger_audit c a m u s) = cryptoProject_findUnique q s"
  "business_findUnique q (logger_audit c a m u s) = business_findUnique q s"
  by (simp_all add: cryptoProject_findUnique_def business_findUnique_def)

lemma findUnique_other_update [simp]:
  "cryptoProject_findUnique q (business_update i t n s) = cryptoProject_findUnique q s"
  "business_findUnique q (cryptoProject_update i t n s) = business_findUnique q s"
  by (simp_all add: cryptoProject_findUnique_def business_findUnique_def)

lemma cryptoProject_findUnique_id:
  "cryptoProject_findUnique q s = Some p \<Longrightarrow> cp_id p = q"
  by (auto simp: cryptoProject_findUnique_def find_Some_iff)

lemma business_findUnique_id:
  "business_findUnique q s = Some b \<Longrightarrow> b_id b = q"
  by (auto simp: business_findUnique_def find_Some_iff)

lemma cryptoRules_ignore_score:
  "rule \<in> set cryptoRules \<Longrightarrow>
   evaluate rule (p\<lparr> cp_trustScore := t, cp_trustScoreUpdatedAt := u \<rparr>) c = evaluate rule p c"
  by (auto simp: cryptoRules_def rule_identityVerification_def rule_liquidityLock6_def
      rule_liquidityLock12_def rule_teamVesting12_def rule_teamVesting24_def
      rule_projectProfile_def rule_externalAudit_def rule_whitepaperSocials_def
      rule_contractVerified_def)

lemma businessRules_ignore_score:
  "rule \<in> set businessRules \<Longrightarrow>
   evaluate rule (b\<lparr> b_trustScore := t, b_trustScoreUpdatedAt := u \<rparr>) c = evaluate rule b c"
  by (auto simp: businessRules_def rule_kybBasic_def rule_kybStandard_def
      rule_kybEnhanced_def rule_financialDocs_def rule_einRegistration_def
      rule_businessProfile_def rule_externalAccountingReview_def)

lemma projectContext_cong:
  "cp_id p' = cp_id p \<Longrightarrow> cp_userId p' = cp_userId p \<Longrightarrow>
   projectDocuments s' = projectDocuments s \<Longrightarrow>
   identityVerifications s' = identityVerifications s \<Longrightarrow>
   projectContext p' s' = projectContext p s"
  by (simp add: projectContext_def user_identityVerification_def)

lemma businessContext_cong:
  "b_id b' = b_id b \<Longrightarrow> b_userId b' = b_userId b \<Longrightarrow>
   businessDocuments s' = businessDocuments s \<Longrightarrow>
   businessFounders s' = businessFounders s \<Longrightarrow>
   identityVerifications s' = identityVerifications s \<Longrightarrow>
   businessContext b' s' = businessContext b s"
  by (simp add: businessContext_def user_identityVerification_def)

lemma cryptoRules_points_stable:
  "(\<Sum>rule\<leftarrow>cryptoRules.
      evaluate rule (p\<lparr> cp_trustScore := t, cp_trustScoreUpdatedAt := u \<rparr>) c)
   = (\<Sum>rule\<leftarrow>cryptoRules. evaluate rule p c)"
  by (rule arg_cong [where f = sum_list]) (simp add: cryptoRules_ignore_score)

lemma businessRules_points_stable:
  "(\<Sum>rule\<leftarrow>businessRules.
      evaluate rule (b\<lparr> b_trustScore := t, b_trustScoreUpdatedAt := u \<rparr>) c)
   = (\<Sum>rule\<leftarrow>businessRules. evaluate rule b c)"
  by (rule arg_cong [where f = sum_list]) (simp add: businessRules_ignore_score)

text \<open>What the state after a successful recomputation holds.\<close>

lemma calculateProjectScore_run:
  assumes "calculateProjectScore pid s = (Inr r, s')"
  obtains p where "cryptoProject_findUnique pid s = Some p"
    and "s' = logger_audit ''TRUST_SCORE'' ''SCORE_CALCULATED''
              (''Calculated trust score for project '' @ pid @ '': ''
                 @ number_toString (currentScore r))
              (cp_userId p) (cryptoProject_update pid (currentScore r) (clock s) s)"
    and "currentScore r =
           max minScore (min maxScore
             (baseScore + (\<Sum>rule\<leftarrow>cryptoRules. evaluate rule p (projectContext p s))
              + (\<Sum>e\<leftarrow>filter (\<lambda>e. ev_projectId e = Some pid \<and> ev_points e < 0)
                     (trustScoreEvents s). ev_points e)))"
proof -
  from assms obtain p where p: "cryptoProject_findUnique pid s = Some p"
    by (cases "cryptoProject_findUnique pid s") (simp_all add: calculateProjectScore_missing)
  from calculateProjectScore_found [OF p] assms that [OF p] show thesis
    by auto
qed

lemma calculateBusinessScore_run:
  assumes "calculateBusinessScore bid s = (Inr r, s')"
  obtains b where "business_findUnique bid s = Some b"
    and "s' = logger_audit ''TRUST_SCORE'' ''SCORE_CALCULATED''
              (''Calculated trust score for business '' @ bid @ '': ''
                 @ number_toString (currentScore r))
              (b_userId b) (business_update bid (currentScore r) (clock s) s)"
    and "currentScore r =
           max minScore (min maxScore
             (baseScore + (\<Sum>rule\<leftarrow>businessRules. evaluate rule b (businessContext b s))
              + (\<Sum>e\<leftarrow>filter (\<lambda>e. ev_businessId e = Some bid \<and> ev_points e < 0)
                     (trustScoreEvents s). ev_points e)))"
proof -
  from assms obtain b where b: "business_findUnique bid s = Some b"
    by (cases "business_findUnique bid s") (simp_all add: calculateBusinessScore_missing)
  from calculateBusinessScore_found [OF b] assms that [OF b] show thesis
    by auto
qed

text \<open>
  The score computed for a row depends on the database only through the ledger, the
  identity verifications and the documents, and not on the stored score of the row.
\<close>

lemma project_total_stable:
  assumes "projectDocuments s' = projectDocuments s"
    and "identityVerifications s' = identityVerifications s"
  shows "(\<Sum>rule\<leftarrow>cryptoRules.
            evaluate rule (p\<lparr> cp_trustScore := t, cp_trustScoreUpdatedAt := u \<rparr>)
              (projectContext (p\<lparr> cp_trustScore := t, cp_trustScoreUpdatedAt := u \<rparr>) s'))
         = (\<Sum>rule\<leftarrow>cryptoRules. evaluate rule p (projectContext p s))"
proof -
  have "projectContext (p\<lparr> cp_trustScore := t, cp_trustScoreUpdatedAt := u \<rparr>) s'
          = projectContext p s"
    by (rule projectContext_cong) (simp_all add: assms)
  then show ?thesis
    by (simp add: cryptoRules_points_stable)
qed

lemma business_total_stable:
  assumes "businessDocuments s' = businessDocuments s"
    and "businessFounders s' = businessFounders s"
    and "identityVerifications s' = identityVerifications s"
  shows "(\<Sum>rule\<leftarrow>businessRules.
            evaluate rule (b\<lparr> b_trustScore := t, b_trustScoreUpdatedAt := u \<rparr>)
              (businessContext (b\<lparr> b_trustScore := t, b_trustScoreUpdatedAt := u \<rparr>) s'))
         = (\<Sum>rule\<leftarrow>businessRules. evaluate rule b (businessContext b s))"
proof -
  have "businessContext (b\<lparr> b_trustScore := t, b_trustScoreUpdatedAt := u \<rparr>) s'
          = businessContext b s"
    by (rule businessContext_cong) (simp_all add: assms)
  then show ?thesis
    by (simp add: businessRules_points_stable)
qed

text \<open>Recording an event for an existing entity: the row appended and the recomputation.\<close>

lemma findUnique_ledger [simp]:
  "cryptoProject_findUnique q (s\<lparr> trustScoreEvents := evs \<rparr>) = cryptoProject_findUnique q s"
  "business_findUnique q (s\<lparr> trustScoreEvents := evs \<rparr>) = business_findUnique q s"
  by (simp_all add: cryptoProject_findUnique_def business_findUnique_def)

lemma context_ledger [simp]:
  "projectContext p (s\<lparr> trustScoreEvents := evs \<rparr>) = projectContext p s"
  "businessContext b (s\<lparr> trustScoreEvents := evs \<rparr>) = businessContext b s"
  by (simp_all add: projectContext_def businessContext_def user_identityVerification_def)

lemma recordEvent_project:
  assumes "cryptoProject_findUnique pid s = Some p"
  shows "\<exists>r::TrustScoreResult. recordEvent pid project ty pts reason actor meta s =
           (Inr (),
            logger_audit ''TRUST_SCORE'' ''SCORE_CALCULATED''
              (''Calculated trust score for project '' @ pid @ '': ''
                 @ number_toString (currentScore r))
              (cp_userId p)
              (cryptoProject_update pid (currentScore r) (clock s)
                 (s\<lparr> trustScoreEvents := trustScoreEvents s @
                      [\<lparr> ev_projectId = Some pid, ev_businessId = None, ev_eventType = ty,
                         ev_points = pts, ev_reason = reason, ev_triggeredBy = actor,
                         ev_metadata = meta, ev_createdAt = clock s \<rparr>] \<rparr>))) \<and>
         currentScore r =
           max minScore (min maxScore
             (baseScore + (\<Sum>rule\<leftarrow>cryptoRules. evaluate rule p (projectContext p s))
              + (\<Sum>e\<leftarrow>filter (\<lambda>e. ev_projectId e = Some pid \<and> ev_points e < 0)
                     (trustScoreEvents s). ev_points e)
              + (if pts < 0 then pts else 0)))"
proof -
  let ?s = "s\<lparr> trustScoreEvents := trustScoreEvents s @
                      [\<lparr> ev_projectId = Some pid, ev_businessId = None, ev_eventType = ty,
                         ev_points = pts, ev_reason = reason, ev_triggeredBy = actor,
                         ev_metadata = meta, ev_createdAt = clock s \<rparr>] \<rparr>"
  have "cryptoProject_findUnique pid ?s = Some p"
    using assms by simp
  from calculateProjectScore_found [OF this]
  obtain r where run: "calculateProjectScore pid ?s =
           (Inr r,
            logger_audit ''TRUST_SCORE'' ''SCORE_CALCULATED''
              (''Calculated trust score for project '' @ pid @ '': ''
                 @ number_toString (currentScore r))
              (cp_userId p) (cryptoProject_update pid (currentScore r) (clock ?s) ?s))"
    and sc: "currentScore r =
           max minScore (min maxScore
             (baseScore + (\<Sum>rule\<leftarrow>cryptoRules. evaluate rule p (projectContext p ?s))
              + (\<Sum>e\<leftarrow>filter (\<lambda>e. ev_projectId e = Some pid \<and> ev_points e < 0)
                     (trustScoreEvents ?s). ev_points e)))"
    by blast
  have rec: "recordEvent pid project ty pts reason actor meta s =
           (Inr (),
            logger_audit ''TRUST_SCORE'' ''SCORE_CALCULATED''
              (''Calculated trust score for project '' @ pid @ '': ''
                 @ number_toString (currentScore r))
              (cp_userId p) (cryptoProject_update pid (currentScore r) (clock s) ?s))"
    using assms run by (simp add: recordEvent_def trustScoreEvent_create_def)
  have tot: "currentScore r =
           max minScore (min maxScore
             (baseScore + (\<Sum>rule\<leftarrow>cryptoRules. evaluate rule p (projectContext p s))
              + (\<Sum>e\<leftarrow>filter (\<lambda>e. ev_projectId e = Some pid \<and> ev_points e < 0)
                     (trustScoreEvents s). ev_points e)
              + (if pts < 0 then pts else 0)))"
    using sc by (cases "pts < 0") (simp_all add: add.assoc)
  show ?thesis
    by (rule exI [of _ r], rule conjI, rule rec, rule tot)
qed

lemma recordEvent_business:
  assumes "business_findUnique bid s = Some b"
  shows "\<exists>r::TrustScoreResult. recordEvent bid business ty pts reason actor meta s =
           (Inr (),
            logger_audit ''TRUST_SCORE'' ''SCORE_CALCULATED''
              (''Calculated trust score for business '' @ bid @ '': ''
                 @ number_toString (currentScore r))
              (b_userId b)
              (business_update bid (currentScore r) (clock s)
                 (s\<lparr> trustScoreEvents := trustScoreEvents s @
                      [\<lparr> ev_projectId = None, ev_businessId = Some bid, ev_eventType = ty,
                         ev_points = pts, ev_reason = reason, ev_triggeredBy = actor,
                         ev_metadata = meta, ev_createdAt = clock s \<rparr>] \<rparr>))) \<and>
         currentScore r =
           max minScore (min maxScore
             (baseScore + (\<Sum>rule\<leftarrow>businessRules. evaluate rule b (businessContext b s))
              + (\<Sum>e\<leftarrow>filter (\<lambda>e. ev_businessId e = Some bid \<and> ev_points e < 0)
                     (trustScoreEvents s). ev_points e)
              + (if pts < 0 then pts else 0)))"
proof -
  let ?s = "s\<lparr> trustScoreEvents := trustScoreEvents s @
                      [\<lparr> ev_projectId = None, ev_businessId = Some bid, ev_eventType = ty,
                         ev_points = pts, ev_reason = reason, ev_triggeredBy = actor,
                         ev_metadata = meta, ev_createdAt = clock s \<rparr>] \<rparr>"
  have "business_findUnique bid ?s = Some b"
    using assms by simp
  from calculateBusinessScore_found [OF this]
  obtain r where run: "calculateBusinessScore bid ?s =
           (Inr r,
            logger_audit ''TRUST_SCORE'' ''SCORE_CALCULATED''
              (''Calculated trust score for business '' @ bid @ '': ''
                 @ number_toString (currentScore r))
              (b_userId b) (business_update bid (currentScore r) (clock ?s) ?s))"
    and sc: "currentScore r =
           max minScore (min maxScore
             (baseScore + (\<Sum>rule\<leftarrow>businessRules. evaluate rule b (businessContext b ?s))
              + (\<Sum>e\<leftarrow>filter (\<lambda>e. ev_businessId e = Some bid \<and> ev_points e < 0)
                     (trustScoreEvents ?s). ev_points e)))"
    by blast
  have rec: "recordEvent bid business ty pts reason actor meta s =
           (Inr (),
            logger_audit ''TRUST_SCORE'' ''SCORE_CALCULATED''
              (''Calculated trust score for business '' @ bid @ '': ''
                 @ number_toString (currentScore r))
              (b_userId b) (business_update bid (currentScore r) (clock s) ?s))"
    using assms run by (simp add: recordEvent_def trustScoreEvent_create_def)
  have tot: "currentScore r =
           max minScore (min maxScore
             (baseScore + (\<Sum>rule\<leftarrow>businessRules. evaluate rule b (businessContext b s))
              + (\<Sum>e\<leftarrow>filter (\<lambda>e. ev_businessId e = Some bid \<and> ev_points e < 0)
                     (trustScoreEvents s). ev_points e)
              + (if pts < 0 then pts else 0)))"
    using sc by (cases "pts < 0") (simp_all add: add.assoc)
  show ?thesis
    by (rule exI [of _ r], rule conjI, rule rec, rule tot)
qed

text \<open>The audit row of a recomputation, and what recording an event leaves behind.\<close>

lemma systemLogs_logger_audit:
  "u \<in> set (users s) \<Longrightarrow>
   systemLogs (logger_audit c a m u s) =
     systemLogs s @ [\<lparr> log_level = ''AUDIT'', log_category = c, log_action = a,
                        log_message = m, log_userId = Some u, log_createdAt = clock s \<rparr>]"
  by (simp add: logger_audit_def logger_log_def)

lemma cryptoProjects_update_keys:
  "map cp_id (cryptoProjects (cryptoProject_update i t n s)) = map cp_id (cryptoProjects s)"
  "map cp_userId (cryptoProjects (cryptoProject_update i t n s)) = map cp_userId (cryptoProjects s)"
  by (simp_all add: cryptoProject_update_def comp_def)

lemma businesses_update_keys:
  "map b_id (businesses (business_update i t n s)) = map b_id (businesses s)"
  "map b_userId (businesses (business_update i t n s)) = map b_userId (businesses s)"
  by (simp_all add: business_update_def comp_def)

lemma cryptoProject_findUnique_member:
  "cryptoProject_findUnique q s = Some p \<Longrightarrow> p \<in> set (cryptoProjects s)"
  by (auto simp: cryptoProject_findUnique_def find_Some_iff)

lemma business_findUnique_member:
  "business_findUnique q s = Some b \<Longrightarrow> b \<in> set (businesses s)"
  by (auto simp: business_findUnique_def find_Some_iff)

lemma cryptoProject_findUnique_exists:
  "q \<in> set (map cp_id (cryptoProjects s)) \<Longrightarrow> \<exists>p. cryptoProject_findUnique q s = Some p"
  by (cases "cryptoProject_findUnique q s")
     (auto simp: cryptoProject_findUnique_def find_None_iff)

lemma business_findUnique_exists:
  "q \<in> set (map b_id (businesses s)) \<Longrightarrow> \<exists>b. business_findUnique q s = Some b"
  by (cases "business_findUnique q s")
     (auto simp: business_findUnique_def find_None_iff)

lemma recordEvent_project_effect:
  assumes "pid \<in> set (map cp_id (cryptoProjects s))"
    and "set (map cp_userId (cryptoProjects s)) \<subseteq> set (users s)"
  shows "\<exists>s' sc u. recordEvent pid project ty pts reason actor meta s = (Inr (), s') \<and>
           trustScoreEvents s' = trustScoreEvents s @
             [\<lparr> ev_projectId = Some pid, ev_businessId = None, ev_eventType = ty,
                ev_points = pts, ev_reason = reason, ev_triggeredBy = actor,
                ev_metadata = meta, ev_createdAt = clock s \<rparr>] \<and>
           systemLogs s' = systemLogs s @
             [\<lparr> log_level = ''AUDIT'', log_category = ''TRUST_SCORE'',
                log_action = ''SCORE_CALCULATED'',
                log_message = ''Calculated trust score for project '' @ pid @ '': ''
                                @ number_toString sc,
                log_userId = Some u, log_createdAt = clock s \<rparr>] \<and>
           users s' = users s \<and> clock s' = clock s \<and>
           map cp_id (cryptoProjects s') = map cp_id (cryptoProjects s) \<and>
           map cp_userId (cryptoProjects s') = map cp_userId (cryptoProjects s) \<and>
           businesses s' = businesses s"
proof -
  from cryptoProject_findUnique_exists [OF assms(1)]
  obtain p where p: "cryptoProject_findUnique pid s = Some p" ..
  from cryptoProject_findUnique_member [OF p] assms(2)
  have u: "cp_userId p \<in> set (users s)"
    by auto
  from recordEvent_project [OF p, of ty pts reason actor meta]
  obtain r :: TrustScoreResult where
    rec: "recordEvent pid project ty pts reason actor meta s =
           (Inr (),
            logger_audit ''TRUST_SCORE'' ''SCORE_CALCULATED''
              (''Calculated trust score for project '' @ pid @ '': ''
                 @ number_toString (currentScore r))
              (cp_userId p)
              (cryptoProject_update pid (currentScore r) (clock s)
                 (s\<lparr> trustScoreEvents := trustScoreEvents s @
                      [\<lparr> ev_projectId = Some pid, ev_businessId = None, ev_eventType = ty,
                         ev_points = pts, ev_reason = reason, ev_triggeredBy = actor,
                         ev_metadata = meta, ev_createdAt = clock s \<rparr>] \<rparr>)))"
    by blast
  show ?thesis
    unfolding rec using u
    by (auto simp add: systemLogs_logger_audit cryptoProjects_update_keys)
qed

lemma recordEvent_business_effect:
  assumes "bid \<in> set (map b_id (businesses s))"
    and "set (map b_userId (businesses s)) \<subseteq> set (users s)"
  shows "\<exists>s' sc u. recordEvent bid business ty pts reason actor meta s = (Inr (), s') \<and>
           trustScoreEvents s' = trustScoreEvents s @
             [\<lparr> ev_projectId = None, ev_businessId = Some bid, ev_eventType = ty,
                ev_points = pts, ev_reason = reason, ev_triggeredBy = actor,
                ev_metadata = meta, ev_createdAt = clock s \<rparr>] \<and>
           systemLogs s' = systemLogs s @
             [\<lparr> log_level = ''AUDIT'', log_category = ''TRUST_SCORE'',
                log_action = ''SCORE_CALCULATED'',
                log_message = ''Calculated trust score for business '' @ bid @ '': ''
                                @ number_toString sc,
                log_userId = Some u, log_createdAt = clock s \<rparr>] \<and>
           users s' = users s \<and> clock s' = clock s \<and>
           map b_id (businesses s') = map b_id (businesses s) \<and>
           map b_userId (businesses s') = map b_userId (businesses s) \<and>
           cryptoProjects s' = cryptoProjects s"
proof -
  from business_findUnique_exists [OF assms(1)]
  obtain b where b: "business_findUnique bid s = Some b" ..
  from business_findUnique_member [OF b] assms(2)
  have u: "b_userId b \<in> set (users s)"
    by auto
  from recordEvent_business [OF b, of ty pts reason actor meta]
  obtain r :: TrustScoreResult where
    rec: "recordEvent bid business ty pts reason actor meta s =
           (Inr (),
            logger_audit ''TRUST_SCORE'' ''SCORE_CALCULATED''
              (''Calculated trust score for business '' @ bid @ '': ''
                 @ number_toString (currentScore r))
              (b_userId b)
              (business_update bid (currentScore r) (clock s)
                 (s\<lparr> trustScoreEvents := trustScoreEvents s @
                      [\<lparr> ev_projectId = None, ev_businessId = Some bid, ev_eventType = ty,
                         ev_points = pts, ev_reason = reason, ev_triggeredBy = actor,
                         ev_metadata = meta, ev_createdAt = clock s \<rparr>] \<rparr>)))"
    by blast
  show ?thesis
    unfolding rec using u
    by (auto simp add: systemLogs_logger_audit businesses_update_keys)
qed

text \<open>The two loops of \<open>onIdentityVerified\<close>.\<close>

lemma identityVerified_projects_effect:
  assumes "set (map cp_id ps) \<subseteq> set (map cp_id (cryptoProjects s))"
    and "set (map cp_userId (cryptoProjects s)) \<subseteq> set (users s)"
  shows "\<exists>s' logs. identityVerified_projects ps s = (Inr (), s') \<and>
           trustScoreEvents s' = trustScoreEvents s @
             map (\<lambda>q. \<lparr> ev_projectId = Some (cp_id q), ev_businessId = None,
                        ev_eventType = IDENTITY_VERIFIED, ev_points = crypto_identityVerified,
                        ev_reason = ''Team lead completed identity verification'',
                        ev_triggeredBy = Some ''system'', ev_metadata = None,
                        ev_createdAt = clock s \<rparr>) ps \<and>
           systemLogs s' = systemLogs s @ logs \<and>
           list_all2 (\<lambda>l q. log_action l = ''SCORE_CALCULATED'' \<and>
                        (\<exists>sc. log_message l =
                           ''Calculated trust score for project '' @ cp_id q @ '': ''
                             @ number_toString sc)) logs ps \<and>
           users s' = users s \<and> clock s' = clock s \<and>
           map cp_id (cryptoProjects s') = map cp_id (cryptoProjects s) \<and>
           map cp_userId (cryptoProjects s') = map cp_userId (cryptoProjects s) \<and>
           businesses s' = businesses s"
  using assms
proof (induction ps arbitrary: s)
  case Nil
  show ?case by simp
next
  case (Cons q ps)
  from Cons.prems have q: "cp_id q \<in> set (map cp_id (cryptoProjects s))"
    by simp
  from recordEvent_project_effect [OF q Cons.prems(2), of IDENTITY_VERIFIED
      crypto_identityVerified "''Team lead completed identity verification''"
      "Some ''system''" None]
  obtain s1 sc u where
    rec: "recordEvent (cp_id q) project IDENTITY_VERIFIED crypto_identityVerified
            ''Team lead completed identity verification'' (Some ''system'') None s = (Inr (), s1)"
    and ev1: "trustScoreEvents s1 = trustScoreEvents s @
             [\<lparr> ev_projectId = Some (cp_id q), ev_businessId = None,
                ev_eventType = IDENTITY_VERIFIED, ev_points = crypto_identityVerified,
                ev_reason = ''Team lead completed identity verification'',
                ev_triggeredBy = Some ''system'', ev_metadata = None,
                ev_createdAt = clock s \<rparr>]"
    and log1: "systemLogs s1 = systemLogs s @
             [\<lparr> log_level = ''AUDIT'', log_category = ''TRUST_SCORE'',
                log_action = ''SCORE_CALCULATED'',
                log_message = ''Calculated trust score for project '' @ cp_id q @ '': ''
                                @ number_toString sc,
                log_userId = Some u, log_createdAt = clock s \<rparr>]"
    and same1: "users s1 = users s" "clock s1 = clock s"
      "map cp_id (cryptoProjects s1) = map cp_id (cryptoProjects s)"
      "map cp_userId (cryptoProjects s1) = map cp_userId (cryptoProjects s)"
      "businesses s1 = businesses s"
    by blast
  have "set (map cp_id ps) \<subseteq> set (map cp_id (cryptoProjects s1))"
    and "set (map cp_userId (cryptoProjects s1)) \<subseteq> set (users s1)"
    using Cons.prems by (simp_all only: same1) simp_all
  from Cons.IH [OF this]
  obtain s' logs where
    run: "identityVerified_projects ps s1 = (Inr (), s')"
    and ev': "trustScoreEvents s' = trustScoreEvents s1 @
             map (\<lambda>q. \<lparr> ev_projectId = Some (cp_id q), ev_businessId = None,
                        ev_eventType = IDENTITY_VERIFIED, ev_points = crypto_identityVerified,
                        ev_reason = ''Team lead completed identity verification'',
                        ev_triggeredBy = Some ''system'', ev_metadata = None,
                        ev_createdAt = clock s1 \<rparr>) ps"
    and log': "systemLogs s' = systemLogs s1 @ logs"
    and rel: "list_all2 (\<lambda>l q. log_action l = ''SCORE_CALCULATED'' \<and>
                        (\<exists>sc. log_message l =
                           ''Calculated trust score for project '' @ cp_id q @ '': ''
                             @ number_toString sc)) logs ps"
    and same': "users s' = users s1" "clock s' = clock s1"
      "map cp_id (cryptoProjects s') = map cp_id (cryptoProjects s1)"
      "map cp_userId (cryptoProjects s') = map cp_userId (cryptoProjects s1)"
      "businesses s' = businesses s1"
    by blast
  let ?l = "\<lparr> log_level = ''AUDIT'', log_category = ''TRUST_SCORE'',
                log_action = ''SCORE_CALCULATED'',
                log_message = ''Calculated trust score for project '' @ cp_id q @ '': ''
                                @ number_toString sc,
                log_userId = Some u, log_createdAt = clock s \<rparr>"
  have "identityVerified_projects (q # ps) s = (Inr (), s')"
    using rec run by simp
  moreover have "trustScoreEvents s' = trustScoreEvents s @
             map (\<lambda>q. \<lparr> ev_projectId = Some (cp_id q), ev_businessId = None,
                        ev_eventType = IDENTITY_VERIFIED, ev_points = crypto_identityVerified,
                        ev_reason = ''Team lead completed identity verification'',
                        ev_triggeredBy = Some ''system'', ev_metadata = None,
                        ev_createdAt = clock s \<rparr>) (q # ps)"
    by (simp add: ev' ev1 same1)
  moreover have "systemLogs s' = systemLogs s @ (?l # logs)"
    by (simp add: log' log1)
  moreover have "list_all2 (\<lambda>l q. log_action l = ''SCORE_CALCULATED'' \<and>
                        (\<exists>sc. log_message l =
                           ''Calculated trust score for project '' @ cp_id q @ '': ''
                             @ number_toString sc)) (?l # logs) (q # ps)"
    using rel by auto
  moreover have "users s' = users s" "clock s' = clock s"
      "map cp_id (cryptoProjects s') = map cp_id (cryptoProjects s)"
      "map cp_userId (cryptoProjects s') = map cp_userId (cryptoProjects s)"
      "businesses s' = businesses s"
    by (simp_all add: same' same1)
  ultimately show ?case
    by blast
qed

lemma identityVerified_businesses_effect:
  assumes "set (map b_id ps) \<subseteq> set (map b_id (businesses s))"
    and "set (map b_userId (businesses s)) \<subseteq> set (users s)"
  shows "\<exists>s' logs. identityVerified_businesses ps s = (Inr (), s') \<and>
           trustScoreEvents s' = trustScoreEvents s @
             map (\<lambda>q. \<lparr> ev_projectId = None, ev_businessId = Some (b_id q),
                        ev_eventType = IDENTITY_VERIFIED, ev_points = business_kybBasic,
                        ev_reason = ''Business owner completed identity verification'',
                        ev_triggeredBy = Some ''system'', ev_metadata = None,
                        ev_createdAt = clock s \<rparr>) ps \<and>
           systemLogs s' = systemLogs s @ logs \<and>
           list_all2 (\<lambda>l q. log_action l = ''SCORE_CALCULATED'' \<and>
                        (\<exists>sc. log_message l =
                           ''Calculated trust score for business '' @ b_id q @ '': ''
                             @ number_toString sc)) logs ps \<and>
           users s' = users s \<and> clock s' = clock s \<and>
           map b_id (businesses s') = map b_id (businesses s) \<and>
           map b_userId (businesses s') = map b_userId (businesses s) \<and>
           cryptoProjects s' = cryptoProjects s"
  using assms
proof (induction ps arbitrary: s)
  case Nil
  show ?case by simp
next
  case (Cons q ps)
  from Cons.prems have q: "b_id q \<in> set (map b_id (businesses s))"
    by simp
  from recordEvent_business_effect [OF q Cons.prems(2), of IDENTITY_VERIFIED
      business_kybBasic "''Business owner completed identity verification''"
      "Some ''system''" None]
  obtain s1 sc u where
    rec: "recordEvent (b_id q) business IDENTITY_VERIFIED business_kybBasic
            ''Business owner completed identity verification'' (Some ''system'') None s = (Inr (), s1)"
    and ev1: "trustScoreEvents s1 = trustScoreEvents s @
             [\<lparr> ev_projectId = None, ev_businessId = Some (b_id q),
                ev_eventType = IDENTITY_VERIFIED, ev_points = business_kybBasic,
                ev_reason = ''Business owner completed identity verification'',
                ev_triggeredBy = Some ''system'', ev_metadata = None,
                ev_createdAt = clock s \<rparr>]"
    and log1: "systemLogs s1 = systemLogs s @
             [\<lparr> log_level = ''AUDIT'', log_category = ''TRUST_SCORE'',
                log_action = ''SCORE_CALCULATED'',
                log_message = ''Calculated trust score for business '' @ b_id q @ '': ''
                                @ number_toString sc,
                log_userId = Some u, log_createdAt = clock s \<rparr>]"
    and same1: "users s1 = users s" "clock s1 = clock s"
      "map b_id (businesses s1) = map b_id (businesses s)"
      "map b_userId (businesses s1) = map b_userId (businesses s)"
      "cryptoProjects s1 = cryptoProjects s"
    by blast
  have "set (map b_id ps) \<subseteq> set (map b_id (businesses s1))"
    and "set (map b_userId (businesses s1)) \<subseteq> set (users s1)"
    using Cons.prems by (simp_all only: same1) simp_all
  from Cons.IH [OF this]
  obtain s' logs where
    run: "identityVerified_businesses ps s1 = (Inr (), s')"
    and ev': "trustScoreEvents s' = trustScoreEvents s1 @
             map (\<lambda>q. \<lparr> ev_projectId = None, ev_businessId = Some (b_id q),
                        ev_eventType = IDENTITY_VERIFIED, ev_points = business_kybBasic,
                        ev_reason = ''Business owner completed identity verification'',
                        ev_triggeredBy = Some ''system'', ev_metadata = None,
                        ev_createdAt = clock s1 \<rparr>) ps"
    and log': "systemLogs s' = systemLogs s1 @ logs"
    and rel: "list_all2 (\<lambda>l q. log_action l = ''SCORE_CALCULATED'' \<and>
                        (\<exists>sc. log_message l =
                           ''Calculated trust score for business '' @ b_id q @ '': ''
                             @ number_toString sc)) logs ps"
    and same': "users s' = users s1" "clock s' = clock s1"
      "map b_id (businesses s') = map b_id (businesses s1)"
      "map b_userId (businesses s') = map b_userId (businesses s1)"
      "cryptoProjects s' = cryptoProjects s1"
    by blast
  let ?l = "\<lparr> log_level = ''AUDIT'', log_category = ''TRUST_SCORE'',
                log_action = ''SCORE_CALCULATED'',
                log_message = ''Calculated trust score for business '' @ b_id q @ '': ''
                                @ number_toString sc,
                log_userId = Some u, log_createdAt = clock s \<rparr>"
  have "identityVerified_businesses (q # ps) s = (Inr (), s')"
    using rec run by simp
  moreover have "trustScoreEvents s' = trustScoreEvents s @
             map (\<lambda>q. \<lparr> ev_projectId = None, ev_businessId = Some (b_id q),
                        ev_eventType = IDENTITY_VERIFIED, ev_points = business_kybBasic,
                        ev_reason = ''Business owner completed identity verification'',
                        ev_triggeredBy = Some ''system'', ev_metadata = None,
                        ev_createdAt = clock s \<rparr>) (q # ps)"
    by (simp add: ev' ev1 same1)
  moreover have "systemLogs s' = systemLogs s @ (?l # logs)"
    by (simp add: log' log1)
  moreover have "list_all2 (\<lambda>l q. log_action l = ''SCORE_CALCULATED'' \<and>
                        (\<exists>sc. log_message l =
                           ''Calculated trust score for business '' @ b_id q @ '': ''
                             @ number_toString sc)) (?l # logs) (q # ps)"
    using rel by auto
  moreover have "users s' = users s" "clock s' = clock s"
      "map b_id (businesses s') = map b_id (businesses s)"
      "map b_userId (businesses s') = map b_userId (businesses s)"
      "cryptoProjects s' = cryptoProjects s"
    by (simp_all add: same' same1)
  ultimately show ?case
    by blast
qed

subsection \<open>The example database, evaluated\<close>

lemmas rule_defs =
  cryptoRules_def rule_identityVerification_def rule_liquidityLock6_def
  rule_liquidityLock12_def rule_teamVesting12_def rule_teamVesting24_def
  rule_projectProfile_def rule_externalAudit_def rule_whitepaperSocials_def
  rule_contractVerified_def
  businessRules_def rule_kybBasic_def rule_kybStandard_def
  rule_kybEnhanced_def rule_financialDocs_def rule_einRegistration_def
  rule_businessProfile_def rule_externalAccountingReview_def
  truthy_string_def truthy_flag_def atLeastMonths_def
  completenessPoints_def

lemma demo_findUnique:
  "cryptoProject_findUnique ''p1'' demo_db = Some demo_project1"
  "cryptoProject_findUnique ''p2'' demo_db = Some demo_project2"
  "business_findUnique ''b1'' demo_db = Some demo_business"
  by (simp_all add: demo_defs cryptoProject_findUnique_def business_findUnique_def)

lemma demo_rule_points:
  "(\<Sum>rule\<leftarrow>cryptoRules. evaluate rule demo_project1 (projectContext demo_project1 demo_db)) = 67"
  "(\<Sum>rule\<leftarrow>cryptoRules. evaluate rule demo_project2 (projectContext demo_project2 demo_db)) = 24"
  "(\<Sum>rule\<leftarrow>businessRules. evaluate rule demo_business (businessContext demo_business demo_db)) = 1"
  by (simp_all add: demo_defs rule_defs config_defs projectContext_def businessContext_def
      user_identityVerification_def)

lemma demo_penalties:
  "filter (\<lambda>e. ev_projectId e = Some ''p1'') (trustScoreEvents demo_db) = []"
  "(\<Sum>e\<leftarrow>filter (\<lambda>e. ev_projectId e = Some ''p1'' \<and> ev_points e < 0)
         (trustScoreEvents demo_db). ev_points e) = 0"
  "(\<Sum>e\<leftarrow>filter (\<lambda>e. ev_projectId e = Some ''p2'' \<and> ev_points e < 0)
         (trustScoreEvents demo_db). ev_points e) = 0"
  "(\<Sum>e\<leftarrow>filter (\<lambda>e. ev_businessId e = Some ''b1'' \<and> ev_points e < 0)
         (trustScoreEvents demo_db). ev_points e) = - 30"
  by (simp_all add: demo_defs)

lemma demo_owned:
  "filter (\<lambda>p. cp_userId p = ''u1'') (cryptoProjects demo_db) = [demo_project1, demo_project2]"
  "filter (\<lambda>b. b_userId b = ''u1'') (businesses demo_db) = [demo_business]"
  "cp_id demo_project1 = ''p1''" "cp_id demo_project2 = ''p2''" "b_id demo_business = ''b1''"
  "length (trustScoreEvents demo_db) = 3" "systemLogs demo_db = []" "clock demo_db = 9"
  by (simp_all add: demo_defs)

lemma demo_fkeys:
  "CryptoProject_userId_fkey demo_db" "Business_userId_fkey demo_db"
  by (simp_all add: demo_defs CryptoProject_userId_fkey_def Business_userId_fkey_def)

subsection \<open>The tier classifier\<close>

text \<open>
  Claim C5. The tier of a score follows the descending thresholds 85, 70, 50, 30 and 0:
  a score from 85 to 100 is EXCELLENT, from 70 to 84 GOOD, from 50 to 69 NEUTRAL, from 30
  to 49 CAUTION and from 0 to 29 HIGH_RISK; the nine boundary scores of the specification
  are classified as it lists them.
\<close>

theorem getTier_thresholds:
  "(85 \<le> score \<and> score \<le> 100 \<longrightarrow> getTier score = EXCELLENT) \<and>
   (70 \<le> score \<and> score \<le> 84 \<longrightarrow> getTier score = GOOD) \<and>
   (50 \<le> score \<and> score \<le> 69 \<longrightarrow> getTier score = NEUTRAL) \<and>
   (30 \<le> score \<and> score \<le> 49 \<longrightarrow> getTier score = CAUTION) \<and>
   (0 \<le> score \<and> score \<le> 29 \<longrightarrow> getTier score = HIGH_RISK) \<and>
   getTier 85 = EXCELLENT \<and> getTier 84 = GOOD \<and> getTier 70 = GOOD \<and>
   getTier 69 = NEUTRAL \<and> getTier 50 = NEUTRAL \<and> getTier 49 = CAUTION \<and>
   getTier 30 = CAUTION \<and> getTier 29 = HIGH_RISK \<and> getTier 0 = HIGH_RISK"
  by (simp add: getTier_def)

theorem getTier_thresholds_witness:
  "((85::int) \<le> 100 \<and> (100::int) \<le> 100) \<and> getTier 100 = EXCELLENT \<and>
   ((70::int) \<le> 77 \<and> (77::int) \<le> 84) \<and> getTier 77 = GOOD \<and>
   ((50::int) \<le> 58 \<and> (58::int) \<le> 69) \<and> getTier 58 = NEUTRAL \<and>
   ((30::int) \<le> 41 \<and> (41::int) \<le> 49) \<and> getTier 41 = CAUTION \<and>
   ((0::int) \<le> 12 \<and> (12::int) \<le> 29) \<and> getTier 12 = HIGH_RISK"
  using getTier_thresholds [of 100] getTier_thresholds [of 77] getTier_thresholds [of 58]
    getTier_thresholds [of 41] getTier_thresholds [of 12]
  by simp

text \<open>
  Claim C10. The classifier is defined on every integer: a score above 100 yields
  EXCELLENT with its description and a score below 0 yields HIGH_RISK with its
  description; \<open>getTierInfo\<close> has no failing branch.
\<close>

theorem getTierInfo_total:
  "(score > 100 \<longrightarrow>
      getTierInfo score =
        \<lparr> ti_tier = EXCELLENT,
          ti_description =
            ''Highly Trusted - This entity has demonstrated exceptional trustworthiness'' \<rparr>) \<and>
   (score < 0 \<longrightarrow>
      getTierInfo score =
        \<lparr> ti_tier = HIGH_RISK,
          ti_description =
            ''High Risk - Significant trust factors are missing or concerning'' \<rparr>)"
  by (simp add: getTierInfo_def getTier_def)

theorem getTierInfo_total_witness:
  "(250::int) > 100 \<and> ti_tier (getTierInfo 250) = EXCELLENT \<and>
   ti_description (getTierInfo 250) =
     ''Highly Trusted - This entity has demonstrated exceptional trustworthiness'' \<and>
   (- 40::int) < 0 \<and> ti_tier (getTierInfo (- 40)) = HIGH_RISK \<and>
   ti_description (getTierInfo (- 40)) =
     ''High Risk - Significant trust factors are missing or concerning''"
  using getTierInfo_total [of 250] getTierInfo_total [of "- 40"]
  by simp

subsection \<open>Recomputation\<close>

text \<open>
  Claim C9. Recomputing an entity whose id resolves to no row fails with the error
  \<open>Project not found\<close> (or \<open>Business not found\<close>), handed to the caller, and the
  database is left exactly as it was: no score field and no ledger event is written.
\<close>

theorem recompute_notFound:
  "(cryptoProject_findUnique pid s = None \<longrightarrow>
      calculateProjectScore pid s = (Inl (Error ''Project not found''), s)) \<and>
   (business_findUnique bid s = None \<longrightarrow>
      calculateBusinessScore bid s = (Inl (Error ''Business not found''), s))"
  by (simp add: calculateProjectScore_missing calculateBusinessScore_missing)

theorem recompute_notFound_witness:
  "cryptoProject_findUnique ''nope'' demo_db = None \<and>
   calculateProjectScore ''nope'' demo_db = (Inl (Error ''Project not found''), demo_db) \<and>
   business_findUnique ''p1'' demo_db = None \<and>
   calculateBusinessScore ''p1'' demo_db = (Inl (Error ''Business not found''), demo_db)"
  using recompute_notFound [of "''nope''" demo_db "''p1''"]
  by (simp add: demo_defs cryptoProject_findUnique_def business_findUnique_def)

text \<open>
  Claim C6. Whenever a recomputation returns a result, its \<open>currentScore\<close> lies between 0
  and 100, and the entity row read back from the database afterwards stores that same
  score.
\<close>

theorem recompute_score_in_range:
  "(calculateProjectScore pid s = (Inr r, s') \<longrightarrow>
      0 \<le> currentScore r \<and> currentScore r \<le> 100 \<and>
      (\<exists>p. cryptoProject_findUnique pid s' = Some p \<and> cp_trustScore p = currentScore r)) \<and>
   (calculateBusinessScore bid s = (Inr rb, sb) \<longrightarrow>
      0 \<le> currentScore rb \<and> currentScore rb \<le> 100 \<and>
      (\<exists>b. business_findUnique bid sb = Some b \<and> b_trustScore b = currentScore rb))"
proof (intro conjI impI)
  assume run: "calculateProjectScore pid s = (Inr r, s')"
  then obtain p where p: "cryptoProject_findUnique pid s = Some p"
    by (cases "cryptoProject_findUnique pid s") (simp_all add: calculateProjectScore_missing)
  from calculateProjectScore_found [OF p] run
  have s': "s' = logger_audit ''TRUST_SCORE'' ''SCORE_CALCULATED''
              (''Calculated trust score for project '' @ pid @ '': ''
                 @ number_toString (currentScore r))
              (cp_userId p) (cryptoProject_update pid (currentScore r) (clock s) s)"
    and sc: "currentScore r =
           max minScore (min maxScore
             (baseScore + (\<Sum>rule\<leftarrow>cryptoRules. evaluate rule p (projectContext p s))
              + (\<Sum>e\<leftarrow>filter (\<lambda>e. ev_projectId e = Some pid \<and> ev_points e < 0)
                     (trustScoreEvents s). ev_points e)))"
    by auto
  show "0 \<le> currentScore r" "currentScore r \<le> 100"
    unfolding sc by (simp_all add: minScore_def maxScore_def)
  show "\<exists>p. cryptoProject_findUnique pid s' = Some p \<and> cp_trustScore p = currentScore r"
    using p cryptoProject_findUnique_id [OF p]
    by (simp add: s' cryptoProject_findUnique_update)
next
  assume run: "calculateBusinessScore bid s = (Inr rb, sb)"
  then obtain b where b: "business_findUnique bid s = Some b"
    by (cases "business_findUnique bid s") (simp_all add: calculateBusinessScore_missing)
  from calculateBusinessScore_found [OF b] run
  have sb: "sb = logger_audit ''TRUST_SCORE'' ''SCORE_CALCULATED''
              (''Calculated trust score for business '' @ bid @ '': ''
                 @ number_toString (currentScore rb))
              (b_userId b) (business_update bid (currentScore rb) (clock s) s)"
    and sc: "currentScore rb =
           max minScore (min maxScore
             (baseScore + (\<Sum>rule\<leftarrow>businessRules. evaluate rule b (businessContext b s))
              + (\<Sum>e\<leftarrow>filter (\<lambda>e. ev_businessId e = Some bid \<and> ev_points e < 0)
                     (trustScoreEvents s). ev_points e)))"
    by auto
  show "0 \<le> currentScore rb" "currentScore rb \<le> 100"
    unfolding sc by (simp_all add: minScore_def maxScore_def)
  show "\<exists>b. business_findUnique bid sb = Some b \<and> b_trustScore b = currentScore rb"
    using b business_findUnique_id [OF b]
    by (simp add: sb business_findUnique_update)
qed

theorem recompute_score_in_range_witness:
  "\<exists>r s' rb sb.
     calculateProjectScore ''p1'' demo_db = (Inr r, s') \<and>
     currentScore r = 100 \<and> 0 \<le> currentScore r \<and> currentScore r \<le> 100 \<and>
     (\<exists>p. cryptoProject_findUnique ''p1'' s' = Some p \<and> cp_trustScore p = currentScore r) \<and>
     calculateBusinessScore ''b1'' demo_db = (Inr rb, sb) \<and>
     currentScore rb = 21 \<and> 0 \<le> currentScore rb \<and> currentScore rb \<le> 100 \<and>
     (\<exists>b. business_findUnique ''b1'' sb = Some b \<and> b_trustScore b = currentScore rb)"
proof -
  obtain r s' where p: "calculateProjectScore ''p1'' demo_db = (Inr r, s')"
    and "currentScore r = 100"
    using calculateProjectScore_found [OF demo_findUnique(1)]
    by (auto simp: demo_rule_points demo_penalties config_defs)
  moreover obtain rb sb where b: "calculateBusinessScore ''b1'' demo_db = (Inr rb, sb)"
    and "currentScore rb = 21"
    using calculateBusinessScore_found [OF demo_findUnique(3)]
    by (auto simp: demo_rule_points demo_penalties config_defs)
  ultimately show ?thesis
    using recompute_score_in_range [of "''p1''" demo_db r s' "''b1''" rb sb]
    by auto
qed

text \<open>
  Claim C2. For an entity without any ledger event, recomputation returns 50 plus the
  sum of the points its rule table awards to the entity and its context, clamped to the
  range from 0 to 100.
\<close>

theorem recompute_no_events:
  "(cryptoProject_findUnique pid s = Some p \<and>
    filter (\<lambda>e. ev_projectId e = Some pid) (trustScoreEvents s) = [] \<longrightarrow>
      (\<exists>r s'. calculateProjectScore pid s = (Inr r, s') \<and>
         currentScore r =
           max 0 (min 100
             (50 + (\<Sum>rule\<leftarrow>cryptoRules. evaluate rule p (projectContext p s)))))) \<and>
   (business_findUnique bid t = Some b \<and>
    filter (\<lambda>e. ev_businessId e = Some bid) (trustScoreEvents t) = [] \<longrightarrow>
      (\<exists>r s'. calculateBusinessScore bid t = (Inr r, s') \<and>
         currentScore r =
           max 0 (min 100
             (50 + (\<Sum>rule\<leftarrow>businessRules. evaluate rule b (businessContext b t))))))"
proof (intro conjI impI)
  assume a: "cryptoProject_findUnique pid s = Some p \<and>
    filter (\<lambda>e. ev_projectId e = Some pid) (trustScoreEvents s) = []"
  then have "filter (\<lambda>e. ev_projectId e = Some pid \<and> ev_points e < 0) (trustScoreEvents s) = []"
    by (auto simp: filter_empty_conv)
  with a calculateProjectScore_found [of pid s p]
  show "\<exists>r s'. calculateProjectScore pid s = (Inr r, s') \<and>
         currentScore r =
           max 0 (min 100
             (50 + (\<Sum>rule\<leftarrow>cryptoRules. evaluate rule p (projectContext p s))))"
    by (auto simp: baseScore_def minScore_def maxScore_def)
next
  assume a: "business_findUnique bid t = Some b \<and>
    filter (\<lambda>e. ev_businessId e = Some bid) (trustScoreEvents t) = []"
  then have "filter (\<lambda>e. ev_businessId e = Some bid \<and> ev_points e < 0) (trustScoreEvents t) = []"
    by (auto simp: filter_empty_conv)
  with a calculateBusinessScore_found [of bid t b]
  show "\<exists>r s'. calculateBusinessScore bid t = (Inr r, s') \<and>
         currentScore r =
           max 0 (min 100
             (50 + (\<Sum>rule\<leftarrow>businessRules. evaluate rule b (businessContext b t))))"
    by (auto simp: baseScore_def minScore_def maxScore_def)
qed

theorem recompute_no_events_witness:
  "cryptoProject_findUnique ''p1'' demo_db = Some demo_project1 \<and>
   filter (\<lambda>e. ev_projectId e = Some ''p1'') (trustScoreEvents demo_db) = [] \<and>
   (\<exists>r s'. calculateProjectScore ''p1'' demo_db = (Inr r, s') \<and>
      currentScore r = max 0 (min 100 (50 + 67)) \<and> currentScore r = 100) \<and>
   business_findUnique ''b1'' (demo_db\<lparr> trustScoreEvents := [] \<rparr>) = Some demo_business \<and>
   filter (\<lambda>e. ev_businessId e = Some ''b1'')
     (trustScoreEvents (demo_db\<lparr> trustScoreEvents := [] \<rparr>)) = [] \<and>
   (\<exists>r s'. calculateBusinessScore ''b1'' (demo_db\<lparr> trustScoreEvents := [] \<rparr>) = (Inr r, s') \<and>
      currentScore r = max 0 (min 100 (50 + 1)) \<and> currentScore r = 51)"
proof -
  have b: "business_findUnique ''b1'' (demo_db\<lparr> trustScoreEvents := [] \<rparr>) = Some demo_business"
    using demo_findUnique(3) by (simp add: business_findUnique_def)
  have c: "businessContext demo_business (demo_db\<lparr> trustScoreEvents := [] \<rparr>)
             = businessContext demo_business demo_db"
    by (rule businessContext_cong) simp_all
  show ?thesis
    using recompute_no_events [of "''p1''" demo_db demo_project1 "''b1''"
        "demo_db\<lparr> trustScoreEvents := [] \<rparr>" demo_business]
    by (simp add: demo_findUnique demo_penalties demo_rule_points b c)
qed

text \<open>
  Claim C3. Recomputation is idempotent in its score: when a recomputation has returned
  a result and nothing else touches the database, recomputing the same entity again
  succeeds and returns the same \<open>currentScore\<close>, although the first call has written the
  entity row and the audit log.
\<close>

theorem recompute_idempotent:
  "(calculateProjectScore pid s = (Inr r1, s1) \<longrightarrow>
      (\<exists>r2 s2. calculateProjectScore pid s1 = (Inr r2, s2) \<and>
                currentScore r2 = currentScore r1)) \<and>
   (calculateBusinessScore bid t = (Inr q1, t1) \<longrightarrow>
      (\<exists>q2 t2. calculateBusinessScore bid t1 = (Inr q2, t2) \<and>
                currentScore q2 = currentScore q1))"
proof (intro conjI impI)
  assume "calculateProjectScore pid s = (Inr r1, s1)"
  then obtain p where p: "cryptoProject_findUnique pid s = Some p"
    and s1: "s1 = logger_audit ''TRUST_SCORE'' ''SCORE_CALCULATED''
              (''Calculated trust score for project '' @ pid @ '': ''
                 @ number_toString (currentScore r1))
              (cp_userId p) (cryptoProject_update pid (currentScore r1) (clock s) s)"
    and r1: "currentScore r1 =
           max minScore (min maxScore
             (baseScore + (\<Sum>rule\<leftarrow>cryptoRules. evaluate rule p (projectContext p s))
              + (\<Sum>e\<leftarrow>filter (\<lambda>e. ev_projectId e = Some pid \<and> ev_points e < 0)
                     (trustScoreEvents s). ev_points e)))"
    by (rule calculateProjectScore_run)
  have "cryptoProject_findUnique pid s1 =
          Some (p\<lparr> cp_trustScore := currentScore r1, cp_trustScoreUpdatedAt := Some (clock s) \<rparr>)"
    using p cryptoProject_findUnique_id [OF p]
    by (simp add: s1 cryptoProject_findUnique_update)
  from calculateProjectScore_found [OF this]
  show "\<exists>r2 s2. calculateProjectScore pid s1 = (Inr r2, s2) \<and> currentScore r2 = currentScore r1"
    by (auto simp: r1 s1 project_total_stable)
next
  assume "calculateBusinessScore bid t = (Inr q1, t1)"
  then obtain b where b: "business_findUnique bid t = Some b"
    and t1: "t1 = logger_audit ''TRUST_SCORE'' ''SCORE_CALCULATED''
              (''Calculated trust score for business '' @ bid @ '': ''
                 @ number_toString (currentScore q1))
              (b_userId b) (business_update bid (currentScore q1) (clock t) t)"
    and q1: "currentScore q1 =
           max minScore (min maxScore
             (baseScore + (\<Sum>rule\<leftarrow>businessRules. evaluate rule b (businessContext b t))
              + (\<Sum>e\<leftarrow>filter (\<lambda>e. ev_businessId e = Some bid \<and> ev_points e < 0)
                     (trustScoreEvents t). ev_points e)))"
    by (rule calculateBusinessScore_run)
  have "business_findUnique bid t1 =
          Some (b\<lparr> b_trustScore := currentScore q1, b_trustScoreUpdatedAt := Some (clock t) \<rparr>)"
    using b business_findUnique_id [OF b]
    by (simp add: t1 business_findUnique_update)
  from calculateBusinessScore_found [OF this]
  show "\<exists>q2 t2. calculateBusinessScore bid t1 = (Inr q2, t2) \<and> currentScore q2 = currentScore q1"
    by (auto simp: q1 t1 business_total_stable)
qed

theorem recompute_idempotent_witness:
  "\<exists>r1 s1 r2 s2 q1 t1 q2 t2.
     calculateProjectScore ''p2'' demo_db = (Inr r1, s1) \<and> currentScore r1 = 74 \<and>
     calculateProjectScore ''p2'' s1 = (Inr r2, s2) \<and> currentScore r2 = 74 \<and>
     calculateBusinessScore ''b1'' demo_db = (Inr q1, t1) \<and> currentScore q1 = 21 \<and>
     calculateBusinessScore ''b1'' t1 = (Inr q2, t2) \<and> currentScore q2 = 21"
proof -
  obtain r1 s1 where p: "calculateProjectScore ''p2'' demo_db = (Inr r1, s1)"
    and "currentScore r1 = 74"
    using calculateProjectScore_found [OF demo_findUnique(2)]
    by (auto simp: demo_rule_points demo_penalties config_defs)
  moreover obtain q1 t1 where b: "calculateBusinessScore ''b1'' demo_db = (Inr q1, t1)"
    and "currentScore q1 = 21"
    using calculateBusinessScore_found [OF demo_findUnique(3)]
    by (auto simp: demo_rule_points demo_penalties config_defs)
  ultimately show ?thesis
    using recompute_idempotent [of "''p2''" demo_db r1 s1 "''b1''" demo_db q1 t1]
    by auto
qed



subsection \<open>The liquidity lock rules\<close>

text \<open>
  Claim C4. The two liquidity lock rules together award, for a lock of at least twelve
  months, exactly the configured twelve month bonus (20), and not the six month bonus
  plus the twelve month bonus (35); and a longer lock never awards fewer points: the
  combined points, and with them the points of the whole rule table, are monotone in
  \<open>liquidityLockMonths\<close>, a missing value counting as the shortest.
\<close>

theorem liquidity_lock_points:
  "(cp_liquidityLockMonths p = Some m \<and> 12 \<le> m \<longrightarrow>
      evaluate rule_liquidityLock6 p c + evaluate rule_liquidityLock12 p c
        = crypto_liquidityLock12Months \<and>
      evaluate rule_liquidityLock6 p c + evaluate rule_liquidityLock12 p c
        \<noteq> crypto_liquidityLock6Months + crypto_liquidityLock12Months) \<and>
   (m \<le> n \<longrightarrow>
      evaluate rule_liquidityLock6 (p\<lparr> cp_liquidityLockMonths := Some m \<rparr>) c
        + evaluate rule_liquidityLock12 (p\<lparr> cp_liquidityLockMonths := Some m \<rparr>) c
      \<le> evaluate rule_liquidityLock6 (p\<lparr> cp_liquidityLockMonths := Some n \<rparr>) c
        + evaluate rule_liquidityLock12 (p\<lparr> cp_liquidityLockMonths := Some n \<rparr>) c \<and>
      (\<Sum>rule\<leftarrow>cryptoRules. evaluate rule (p\<lparr> cp_liquidityLockMonths := Some m \<rparr>) c)
      \<le> (\<Sum>rule\<leftarrow>cryptoRules. evaluate rule (p\<lparr> cp_liquidityLockMonths := Some n \<rparr>) c)) \<and>
   evaluate rule_liquidityLock6 (p\<lparr> cp_liquidityLockMonths := None \<rparr>) c
     + evaluate rule_liquidityLock12 (p\<lparr> cp_liquidityLockMonths := None \<rparr>) c
   \<le> evaluate rule_liquidityLock6 (p\<lparr> cp_liquidityLockMonths := Some n \<rparr>) c
     + evaluate rule_liquidityLock12 (p\<lparr> cp_liquidityLockMonths := Some n \<rparr>) c \<and>
   rule_maxPoints rule_liquidityLock6 + rule_maxPoints rule_liquidityLock12
     = crypto_liquidityLock12Months \<and>
   crypto_liquidityLock12Months = 20"
  by (simp add: rule_defs config_defs)

theorem liquidity_lock_points_witness:
  "cp_liquidityLockMonths demo_project1 = Some 12 \<and> (12::int) \<le> 12 \<and>
   evaluate rule_liquidityLock6 demo_project1 (projectContext demo_project1 demo_db)
     + evaluate rule_liquidityLock12 demo_project1 (projectContext demo_project1 demo_db) = 20 \<and>
   (6::int) \<le> 18 \<and>
   evaluate rule_liquidityLock6 (demo_project1\<lparr> cp_liquidityLockMonths := Some 6 \<rparr>)
       (projectContext demo_project1 demo_db)
     + evaluate rule_liquidityLock12 (demo_project1\<lparr> cp_liquidityLockMonths := Some 6 \<rparr>)
       (projectContext demo_project1 demo_db)
   \<le> evaluate rule_liquidityLock6 (demo_project1\<lparr> cp_liquidityLockMonths := Some 18 \<rparr>)
       (projectContext demo_project1 demo_db)
     + evaluate rule_liquidityLock12 (demo_project1\<lparr> cp_liquidityLockMonths := Some 18 \<rparr>)
       (projectContext demo_project1 demo_db)"
proof -
  have lock: "cp_liquidityLockMonths demo_project1 = Some 12"
    by (simp add: demo_project1_def)
  show ?thesis
    using liquidity_lock_points [of demo_project1 12 "projectContext demo_project1 demo_db" 12]
      liquidity_lock_points [of demo_project1 6 "projectContext demo_project1 demo_db" 18]
    by (simp add: lock)
qed

subsection \<open>Triggers\<close>

text \<open>
  Claim C8. In a database whose entity rows reference existing users,
  \<open>onIdentityVerified\<close> succeeds for a user owning N projects and M businesses, appends
  to the ledger exactly one IDENTITY_VERIFIED event per owned entity (the projects first,
  then the businesses: N + M events), and runs exactly N + M recomputations, one per owned
  entity in the same order, each visible as one \<open>SCORE_CALCULATED\<close> audit row naming the
  entity.
\<close>

theorem onIdentityVerified_fanout:
  assumes "CryptoProject_userId_fkey s" and "Business_userId_fkey s"
  shows "\<exists>s' logs.
           onIdentityVerified userId s = (Inr (), s') \<and>
           trustScoreEvents s' = trustScoreEvents s @
             map (\<lambda>q. \<lparr> ev_projectId = Some (cp_id q), ev_businessId = None,
                        ev_eventType = IDENTITY_VERIFIED, ev_points = 20,
                        ev_reason = ''Team lead completed identity verification'',
                        ev_triggeredBy = Some ''system'', ev_metadata = None,
                        ev_createdAt = clock s \<rparr>)
               (filter (\<lambda>p. cp_userId p = userId) (cryptoProjects s)) @
             map (\<lambda>q. \<lparr> ev_projectId = None, ev_businessId = Some (b_id q),
                        ev_eventType = IDENTITY_VERIFIED, ev_points = 10,
                        ev_reason = ''Business owner completed identity verification'',
                        ev_triggeredBy = Some ''system'', ev_metadata = None,
                        ev_createdAt = clock s \<rparr>)
               (filter (\<lambda>b. b_userId b = userId) (businesses s)) \<and>
           length (trustScoreEvents s') = length (trustScoreEvents s)
             + (length (filter (\<lambda>p. cp_userId p = userId) (cryptoProjects s))
                + length (filter (\<lambda>b. b_userId b = userId) (businesses s))) \<and>
           systemLogs s' = systemLogs s @ logs \<and>
           length logs = length (filter (\<lambda>p. cp_userId p = userId) (cryptoProjects s))
                + length (filter (\<lambda>b. b_userId b = userId) (businesses s)) \<and>
           list_all2 (\<lambda>l entity. log_action l = ''SCORE_CALCULATED'' \<and>
                        (\<exists>sc. log_message l =
                           ''Calculated trust score for '' @ entity @ '': ''
                             @ number_toString sc))
             logs
             (map (\<lambda>p. ''project '' @ cp_id p)
                (filter (\<lambda>p. cp_userId p = userId) (cryptoProjects s)) @
              map (\<lambda>b. ''business '' @ b_id b)
                (filter (\<lambda>b. b_userId b = userId) (businesses s)))"
proof -
  let ?ps = "filter (\<lambda>p. cp_userId p = userId) (cryptoProjects s)"
  let ?bs = "filter (\<lambda>b. b_userId b = userId) (businesses s)"
  let ?R = "\<lambda>l entity. log_action l = ''SCORE_CALCULATED'' \<and>
                        (\<exists>sc. log_message l =
                           ''Calculated trust score for '' @ entity @ '': ''
                             @ number_toString sc)"
  have pk: "set (map cp_id ?ps) \<subseteq> set (map cp_id (cryptoProjects s))"
    by auto
  have pu: "set (map cp_userId (cryptoProjects s)) \<subseteq> set (users s)"
    using assms(1) by (auto simp: CryptoProject_userId_fkey_def list_all_iff)
  from identityVerified_projects_effect [OF pk pu]
  obtain s1 logs1 where
    run1: "identityVerified_projects ?ps s = (Inr (), s1)"
    and ev1: "trustScoreEvents s1 = trustScoreEvents s @
             map (\<lambda>q. \<lparr> ev_projectId = Some (cp_id q), ev_businessId = None,
                        ev_eventType = IDENTITY_VERIFIED, ev_points = crypto_identityVerified,
                        ev_reason = ''Team lead completed identity verification'',
                        ev_triggeredBy = Some ''system'', ev_metadata = None,
                        ev_createdAt = clock s \<rparr>) ?ps"
    and log1: "systemLogs s1 = systemLogs s @ logs1"
    and rel1: "list_all2 (\<lambda>l q. log_action l = ''SCORE_CALCULATED'' \<and>
                        (\<exists>sc. log_message l =
                           ''Calculated trust score for project '' @ cp_id q @ '': ''
                             @ number_toString sc)) logs1 ?ps"
    and same1: "users s1 = users s" "clock s1 = clock s" "businesses s1 = businesses s"
    by blast
  have bk: "set (map b_id ?bs) \<subseteq> set (map b_id (businesses s1))"
    by (auto simp: same1)
  have bu: "set (map b_userId (businesses s1)) \<subseteq> set (users s1)"
    using assms(2) by (auto simp: same1 Business_userId_fkey_def list_all_iff)
  from identityVerified_businesses_effect [OF bk bu]
  obtain s' logs2 where
    run2: "identityVerified_businesses ?bs s1 = (Inr (), s')"
    and ev2: "trustScoreEvents s' = trustScoreEvents s1 @
             map (\<lambda>q. \<lparr> ev_projectId = None, ev_businessId = Some (b_id q),
                        ev_eventType = IDENTITY_VERIFIED, ev_points = business_kybBasic,
                        ev_reason = ''Business owner completed identity verification'',
                        ev_triggeredBy = Some ''system'', ev_metadata = None,
                        ev_createdAt = clock s1 \<rparr>) ?bs"
    and log2: "systemLogs s' = systemLogs s1 @ logs2"
    and rel2: "list_all2 (\<lambda>l q. log_action l = ''SCORE_CALCULATED'' \<and>
                        (\<exists>sc. log_message l =
                           ''Calculated trust score for business '' @ b_id q @ '': ''
                             @ number_toString sc)) logs2 ?bs"
    by blast
  have run: "onIdentityVerified userId s = (Inr (), s')"
    using run1 run2 by (simp add: onIdentityVerified_def same1)
  have ev: "trustScoreEvents s' = trustScoreEvents s @
             map (\<lambda>q. \<lparr> ev_projectId = Some (cp_id q), ev_businessId = None,
                        ev_eventType = IDENTITY_VERIFIED, ev_points = 20,
                        ev_reason = ''Team lead completed identity verification'',
                        ev_triggeredBy = Some ''system'', ev_metadata = None,
                        ev_createdAt = clock s \<rparr>) ?ps @
             map (\<lambda>q. \<lparr> ev_projectId = None, ev_businessId = Some (b_id q),
                        ev_eventType = IDENTITY_VERIFIED, ev_points = 10,
                        ev_reason = ''Business owner completed identity verification'',
                        ev_triggeredBy = Some ''system'', ev_metadata = None,
                        ev_createdAt = clock s \<rparr>) ?bs"
    by (simp add: ev2 ev1 same1 crypto_identityVerified_def business_kybBasic_def)
  have len: "length (trustScoreEvents s') = length (trustScoreEvents s)
             + (length ?ps + length ?bs)"
    by (simp add: ev)
  have logs: "systemLogs s' = systemLogs s @ (logs1 @ logs2)"
    by (simp add: log2 log1)
  have r1: "list_all2 ?R logs1 (map (\<lambda>p. ''project '' @ cp_id p) ?ps)"
    using rel1 by (simp add: list_all2_map2)
  have r2: "list_all2 ?R logs2 (map (\<lambda>b. ''business '' @ b_id b) ?bs)"
    using rel2 by (simp add: list_all2_map2)
  have rel: "list_all2 ?R (logs1 @ logs2)
               (map (\<lambda>p. ''project '' @ cp_id p) ?ps @ map (\<lambda>b. ''business '' @ b_id b) ?bs)"
    using r1 r2 by (rule list_all2_appendI)
  have n: "length (logs1 @ logs2) = length ?ps + length ?bs"
    using list_all2_lengthD [OF rel] by simp
  from run ev len logs n rel show ?thesis
    by blast
qed

theorem onIdentityVerified_fanout_witness:
  "CryptoProject_userId_fkey demo_db \<and> Business_userId_fkey demo_db \<and>
   length (filter (\<lambda>p. cp_userId p = ''u1'') (cryptoProjects demo_db)) = 2 \<and>
   length (filter (\<lambda>b. b_userId b = ''u1'') (businesses demo_db)) = 1 \<and>
   (\<exists>s'. onIdentityVerified ''u1'' demo_db = (Inr (), s') \<and>
      length (trustScoreEvents s') = 3 + 3 \<and>
      map ev_projectId (drop 3 (trustScoreEvents s')) = [Some ''p1'', Some ''p2'', None] \<and>
      map ev_businessId (drop 3 (trustScoreEvents s')) = [None, None, Some ''b1''] \<and>
      map ev_points (drop 3 (trustScoreEvents s')) = [20, 20, 10] \<and>
      length (systemLogs s') = 3 \<and>
      map log_action (systemLogs s')
        = [''SCORE_CALCULATED'', ''SCORE_CALCULATED'', ''SCORE_CALCULATED''])"
proof -
  from onIdentityVerified_fanout [OF demo_fkeys, of "''u1''"]
  obtain s' logs where
    run: "onIdentityVerified ''u1'' demo_db = (Inr (), s')"
    and ev: "trustScoreEvents s' = trustScoreEvents demo_db @
             map (\<lambda>q. \<lparr> ev_projectId = Some (cp_id q), ev_businessId = None,
                        ev_eventType = IDENTITY_VERIFIED, ev_points = 20,
                        ev_reason = ''Team lead completed identity verification'',
                        ev_triggeredBy = Some ''system'', ev_metadata = None,
                        ev_createdAt = clock demo_db \<rparr>)
               (filter (\<lambda>p. cp_userId p = ''u1'') (cryptoProjects demo_db)) @
             map (\<lambda>q. \<lparr> ev_projectId = None, ev_businessId = Some (b_id q),
                        ev_eventType = IDENTITY_VERIFIED, ev_points = 10,
                        ev_reason = ''Business owner completed identity verification'',
                        ev_triggeredBy = Some ''system'', ev_metadata = None,
                        ev_createdAt = clock demo_db \<rparr>)
               (filter (\<lambda>b. b_userId b = ''u1'') (businesses demo_db))"
    and logs: "systemLogs s' = systemLogs demo_db @ logs"
    and rel: "list_all2 (\<lambda>l entity. log_action l = ''SCORE_CALCULATED'' \<and>
                        (\<exists>sc. log_message l =
                           ''Calculated trust score for '' @ entity @ '': ''
                             @ number_toString sc))
             logs
             (map (\<lambda>p. ''project '' @ cp_id p)
                (filter (\<lambda>p. cp_userId p = ''u1'') (cryptoProjects demo_db)) @
              map (\<lambda>b. ''business '' @ b_id b)
                (filter (\<lambda>b. b_userId b = ''u1'') (businesses demo_db)))"
    by blast
  from rel obtain l1 l2 l3 where l: "logs = [l1, l2, l3]"
    and "log_action l1 = ''SCORE_CALCULATED''" "log_action l2 = ''SCORE_CALCULATED''"
    "log_action l3 = ''SCORE_CALCULATED''"
    by (auto simp: demo_owned list_all2_Cons2)
  with run ev logs show ?thesis
    by (simp add: demo_owned demo_fkeys)
qed

subsection \<open>Score writes, ledger events and audit records\<close>




end
